theory Spec2Isabelle
  imports Complex_Main
begin


section \<open>Authorization gate (auth.py, class RBACManager)\<close>

text \<open>
  The settings object of config.py is read-only at run time. Only the fields that the
  modelled code reads are kept.
\<close>

record settings =
  enable_rbac :: bool

text \<open>
  \<^verbatim>\<open>RBACManager.ROLES\<close>: a dict literal from role name to a list of permission
  strings, kept as an association list in the order of the source.
\<close>

definition ROLES :: "(string \<times> string list) list" where
  "ROLES =
    [(''admin'',
       [''vm:create'', ''vm:delete'', ''vm:start'', ''vm:stop'', ''vm:clone'', ''vm:migrate'',
        ''vm:snapshot'', ''vm:config'', ''vm:monitor'',
        ''lxc:create'', ''lxc:delete'', ''lxc:start'', ''lxc:stop'', ''lxc:clone'',
        ''lxc:snapshot'', ''lxc:config'', ''lxc:monitor'', ''lxc:exec'',
        ''node:monitor'', ''node:configure'', ''node:reboot'', ''node:shutdown'',
        ''node:services'', ''node:tasks'',
        ''cluster:monitor'', ''cluster:configure'', ''cluster:ha'', ''cluster:backup'',
        ''storage:create'', ''storage:delete'', ''storage:configure'', ''storage:monitor'',
        ''storage:upload'', ''storage:download'',
        ''network:create'', ''network:delete'', ''network:configure'', ''network:monitor'',
        ''network:sdn'', ''network:firewall'',
        ''backup:create'', ''backup:restore'', ''backup:delete'', ''backup:schedule'',
        ''backup:monitor'',
        ''system:configure'', ''system:monitor'', ''system:logs'']),
     (''operator'',
       [''vm:start'', ''vm:stop'', ''vm:clone'', ''vm:snapshot'', ''vm:monitor'',
        ''lxc:start'', ''lxc:stop'', ''lxc:clone'', ''lxc:snapshot'', ''lxc:monitor'',
        ''node:monitor'', ''node:tasks'',
        ''cluster:monitor'',
        ''storage:monitor'', ''storage:upload'',
        ''network:monitor'',
        ''backup:create'', ''backup:monitor'',
        ''system:monitor'']),
     (''viewer'',
       [''vm:monitor'', ''lxc:monitor'', ''node:monitor'', ''cluster:monitor'',
        ''storage:monitor'', ''network:monitor'', ''backup:monitor'', ''system:monitor''])]"

text \<open>\<^verbatim>\<open>cls.ROLES.get(user_role, [])\<close>\<close>

definition get_user_permissions :: "string \<Rightarrow> string list" where
  "get_user_permissions user_role =
     (case map_of ROLES user_role of None \<Rightarrow> [] | Some ps \<Rightarrow> ps)"

definition check_permission :: "settings \<Rightarrow> string \<Rightarrow> string \<Rightarrow> bool" where
  "check_permission s user_role required_permission =
     (if \<not> enable_rbac s then True
      else let user_permissions = (case map_of ROLES user_role of None \<Rightarrow> [] | Some ps \<Rightarrow> ps)
           in required_permission \<in> set user_permissions)"


section \<open>Python values and their text\<close>

text \<open>
  The JSON-like values that travel between caller, handlers and the remote endpoint.
  Dictionaries keep insertion order, so they are association lists; floats are not
  modelled. Characters are the code points below 256.
\<close>

datatype pyval =
    PNone
  | PBool bool
  | PInt int
  | PStr string
  | PList "pyval list"
  | PDict "(string \<times> pyval) list"

text \<open>Truth value of an object (\<^verbatim>\<open>if x:\<close>, \<^verbatim>\<open>not x\<close>, \<^verbatim>\<open>x or y\<close>).\<close>

fun truthy :: "pyval \<Rightarrow> bool" where
  "truthy PNone = False"
| "truthy (PBool b) = b"
| "truthy (PInt i) = (i \<noteq> 0)"
| "truthy (PStr s) = (s \<noteq> [])"
| "truthy (PList xs) = (xs \<noteq> [])"
| "truthy (PDict kvs) = (kvs \<noteq> [])"

text \<open>\<^verbatim>\<open>str(n)\<close> for an integer: decimal digits, a minus sign when negative.\<close>

fun str_nat :: "nat \<Rightarrow> string" where
  "str_nat n =
     (if n < 10 then [''0123456789'' ! n]
      else str_nat (n div 10) @ [''0123456789'' ! (n mod 10)])"

declare str_nat.simps [simp del]

definition str_int :: "int \<Rightarrow> string" where
  "str_int i = (if i < 0 then CHR ''-'' # str_nat (nat (- i)) else str_nat (nat i))"

text \<open>
  \<^verbatim>\<open>repr(s)\<close> for a string: single quotes unless the string holds a single quote
  and no double quote; backslash, the chosen quote, tab, newline and carriage return
  are escaped, other non-printable characters become \<^verbatim>\<open>\xNN\<close>.
\<close>

definition hex2 :: "char \<Rightarrow> string" where
  "hex2 c = [''0123456789abcdef'' ! (of_char c div 16), ''0123456789abcdef'' ! (of_char c mod 16)]"

definition printable :: "char \<Rightarrow> bool" where
  "printable c =
     (let n = (of_char c :: nat)
      in (32 \<le> n \<and> n < 127) \<or> (161 \<le> n \<and> n \<noteq> 173))"

definition repr_char :: "char \<Rightarrow> char \<Rightarrow> string" where
  "repr_char q c =
     (if c = q \<or> c = CHR 0x5C then [CHR 0x5C, c]
      else if c = CHR 0x09 then [CHR 0x5C, CHR ''t'']
      else if c = CHR 0x0A then [CHR 0x5C, CHR ''n'']
      else if c = CHR 0x0D then [CHR 0x5C, CHR ''r'']
      else if printable c then [c]
      else [CHR 0x5C, CHR ''x''] @ hex2 c)"

definition repr_str :: "string \<Rightarrow> string" where
  "repr_str s =
     (let q = (if CHR 0x27 \<in> set s \<and> CHR 0x22 \<notin> set s then CHR 0x22 else CHR 0x27)
      in [q] @ concat (map (repr_char q) s) @ [q])"

fun join :: "string \<Rightarrow> string list \<Rightarrow> string" where
  "join sep [] = []"
| "join sep [x] = x"
| "join sep (x # y # ys) = x @ sep @ join sep (y # ys)"

primrec py_repr :: "pyval \<Rightarrow> string" where
  "py_repr PNone = ''None''"
| "py_repr (PBool b) = (if b then ''True'' else ''False'')"
| "py_repr (PInt i) = str_int i"
| "py_repr (PStr s) = repr_str s"
| "py_repr (PList xs) = ''['' @ join '', '' (map py_repr xs) @ '']''"
| "py_repr (PDict kvs) =
     ''{'' @ join '', '' (map (\<lambda>(k, r). repr_str k @ '': '' @ r) (map (map_prod id py_repr) kvs)) @ ''}''"

text \<open>\<^verbatim>\<open>str(x)\<close>, also what an f-string inserts for \<^verbatim>\<open>{x}\<close>.\<close>

definition py_str :: "pyval \<Rightarrow> string" where
  "py_str v = (case v of PStr s \<Rightarrow> s | _ \<Rightarrow> py_repr v)"

section \<open>Exceptions (exceptions.py)\<close>

datatype exn_class =
    ProxmoxMCPException
  | ProxmoxConnectionException
  | ProxmoxAuthenticationException
  | ProxmoxOperationException
  | ProxmoxValidationException
  | ProxmoxPermissionException
  | ProxmoxTimeoutException
  | ProxmoxResourceNotFoundException

text \<open>
  \<open>ProxmoxError\<close> is an instance of one of the classes of exceptions.py, with its
  message, error code, details and the attributes its subclass adds. The other
  constructors are the built-in exceptions the modelled code can meet;
  \<open>RemoteError\<close> stands for whatever the transport library raises, with its text.
  Every constructor is an \<^verbatim>\<open>Exception\<close>, so \<^verbatim>\<open>except Exception\<close> catches all of
  them.
\<close>

datatype exn =
    ProxmoxError (cls: exn_class) (message: string) (error_code: string)
      (details: "(string \<times> pyval) list") (attrs: "(string \<times> pyval) list")
  | KeyError string
  | TypeError string
  | AttributeError string
  | RemoteError string

text \<open>\<^verbatim>\<open>x or default\<close> for an optional argument.\<close>

definition or_str :: "string option \<Rightarrow> string \<Rightarrow> string" where
  "or_str x d = (case x of None \<Rightarrow> d | Some s \<Rightarrow> if s = [] then d else s)"

definition or_dict :: "(string \<times> pyval) list option \<Rightarrow> (string \<times> pyval) list" where
  "or_dict x = (case x of None \<Rightarrow> [] | Some d \<Rightarrow> d)"

text \<open>\<^verbatim>\<open>d[k] = v\<close> on an insertion-ordered dictionary.\<close>

definition dict_set :: "(string \<times> pyval) list \<Rightarrow> string \<Rightarrow> pyval \<Rightarrow> (string \<times> pyval) list" where
  "dict_set d k v = (if k \<in> fst ` set d then map (\<lambda>(k', v'). if k' = k then (k', v) else (k', v')) d
                     else d @ [(k, v)])"

definition ProxmoxMCPException_init ::
  "string \<Rightarrow> string option \<Rightarrow> (string \<times> pyval) list option \<Rightarrow> exn" where
  "ProxmoxMCPException_init msg code det =
     ProxmoxError ProxmoxMCPException msg (or_str code ''PROXMOX_MCP_ERROR'') (or_dict det) []"

definition ProxmoxOperationException_init ::
  "string \<Rightarrow> string option \<Rightarrow> (string \<times> pyval) list option \<Rightarrow> exn" where
  "ProxmoxOperationException_init msg operation det =
     (let error_details = or_dict det;
          error_details = (case operation of
                             None \<Rightarrow> error_details
                           | Some op \<Rightarrow> if op = [] then error_details
                                        else dict_set error_details ''operation'' (PStr op))
      in ProxmoxError ProxmoxOperationException msg ''PROXMOX_OPERATION_ERROR'' error_details
           [(''operation'', case operation of None \<Rightarrow> PNone | Some op \<Rightarrow> PStr op)])"

definition ProxmoxTimeoutException_init ::
  "string \<Rightarrow> int option \<Rightarrow> (string \<times> pyval) list option \<Rightarrow> exn" where
  "ProxmoxTimeoutException_init msg timeout det =
     (let error_details = or_dict det;
          error_details = (case timeout of
                             None \<Rightarrow> error_details
                           | Some t \<Rightarrow> if t = 0 then error_details
                                       else dict_set error_details ''timeout'' (PInt t))
      in ProxmoxError ProxmoxTimeoutException msg ''PROXMOX_TIMEOUT_ERROR'' error_details
           [(''timeout'', case timeout of None \<Rightarrow> PNone | Some t \<Rightarrow> PInt t)])"

text \<open>
  \<^verbatim>\<open>str(e)\<close>: the message for the classes of exceptions.py (their constructor passes
  it to \<^verbatim>\<open>Exception\<close>), the \<^verbatim>\<open>repr\<close> of the key for a \<^verbatim>\<open>KeyError\<close>.
\<close>

fun str_exn :: "exn \<Rightarrow> string" where
  "str_exn (ProxmoxError c m code det extra) = m"
| "str_exn (KeyError k) = repr_str k"
| "str_exn (TypeError m) = m"
| "str_exn (AttributeError m) = m"
| "str_exn (RemoteError m) = m"


section \<open>The world the client runs in\<close>

text \<open>
  A remote call is the chain of attribute accesses and calls that the transport library
  turns into one HTTP request: the path, the method and the keyword arguments.
\<close>

datatype api_call = ApiCall (path: "pyval list") (meth: string) (kwargs: "(string \<times> pyval) list")

datatype event = Call api_call | Sleep rat

text \<open>
  The world is the wall clock (what \<^verbatim>\<open>datetime.now()\<close> reads, in microseconds) and
  the trace of the remote calls issued and of the sleeps taken, oldest first. Time passes
  while the remote endpoint answers a call and during a sleep, which takes exactly the
  delay asked for. Log output is not part of the world.
\<close>

record world =
  clock :: int
  trace :: "event list"

text \<open>
  The remote endpoint answers a call with a value or an exception and takes some time
  for it; its answer may depend on everything that happened before.
\<close>

type_synonym remote = "world \<Rightarrow> api_call \<Rightarrow> (exn + pyval) \<times> int"

text \<open>An operation is a closure run against the world: it returns or raises.\<close>

type_synonym 'a operation = "world \<Rightarrow> (exn + 'a) \<times> world"

definition ncalls :: "world \<Rightarrow> nat" where
  "ncalls w = length (filter (\<lambda>e. case e of Call c \<Rightarrow> True | Sleep d \<Rightarrow> False) (trace w))"

text \<open>\<^verbatim>\<open>await asyncio.sleep(d)\<close> with \<open>d\<close> in seconds; a delay that is not positive returns at once.\<close>

definition sleep :: "rat \<Rightarrow> world \<Rightarrow> world" where
  "sleep d w = w\<lparr>clock := clock w + max 0 \<lfloor>d * 1000000\<rfloor>, trace := trace w @ [Sleep d]\<rparr>"

text \<open>
  \<^verbatim>\<open>timedelta.seconds\<close> of a difference of two clock readings: the seconds within the
  day, between 0 and 86399; the days are a separate field.
\<close>

definition td_seconds :: "int \<Rightarrow> int" where
  "td_seconds d = (d mod 86400000000) div 1000000"

section \<open>Transport client (proxmox_client.py)\<close>

record client =
  api :: "remote option"
  last_connection_check :: "int option"

text \<open>
  The body of a \<^verbatim>\<open>lambda: self.api. ... .get()\<close>: with no connection the first
  attribute access on \<^verbatim>\<open>None\<close> raises; otherwise the call reaches the remote endpoint.
\<close>

definition quoted :: "string \<Rightarrow> string" where
  "quoted s = [CHR 0x27] @ s @ [CHR 0x27]"

definition api_request :: "client \<Rightarrow> api_call \<Rightarrow> pyval operation" where
  "api_request c call w =
     (case api c of
        None \<Rightarrow>
          (Inl (AttributeError
                  (quoted ''NoneType'' @ '' object has no attribute ''
                   @ quoted (case path call of PStr a # _ \<Rightarrow> a | _ \<Rightarrow> []))), w)
      | Some r \<Rightarrow>
          (case r w call of
             (res, took) \<Rightarrow> (res, w\<lparr>clock := clock w + took, trace := trace w @ [Call call]\<rparr>)))"

text \<open>
  The f-string of the final \<^verbatim>\<open>raise\<close> of \<^verbatim>\<open>_execute_with_retry\<close>;
  \<^verbatim>\<open>str(None)\<close> is the text \<^verbatim>\<open>None\<close>.
\<close>

definition exhausted_message :: "int \<Rightarrow> exn option \<Rightarrow> string" where
  "exhausted_message max_retries last_exception =
     ''Operation failed after '' @ str_int max_retries @ '' attempts: ''
     @ (case last_exception of None \<Rightarrow> ''None'' | Some e \<Rightarrow> str_exn e)"

text \<open>
  \<^verbatim>\<open>_execute_with_retry\<close>: the \<^verbatim>\<open>for attempt in range(max_retries)\<close> loop runs over
  the list of attempt numbers; falling out of the loop raises.
\<close>

fun retry_loop ::
  "'a operation \<Rightarrow> int \<Rightarrow> rat \<Rightarrow> nat list \<Rightarrow> exn option \<Rightarrow> world \<Rightarrow> (exn + 'a) \<times> world" where
  "retry_loop operation max_retries delay [] last_exception w =
     (Inl (ProxmoxMCPException_init (exhausted_message max_retries last_exception) None None), w)"
| "retry_loop operation max_retries delay (attempt # rest) last_exception w =
     (case operation w of
        (Inr v, w1) \<Rightarrow> (Inr v, w1)
      | (Inl e, w1) \<Rightarrow>
          retry_loop operation max_retries delay rest (Some e)
            (if int attempt < max_retries - 1 then sleep (delay * 2 ^ attempt) w1 else w1))"

definition execute_with_retry :: "'a operation \<Rightarrow> int \<Rightarrow> rat \<Rightarrow> 'a operation" where
  "execute_with_retry operation max_retries delay w =
     retry_loop operation max_retries delay [0..<nat max_retries] None w"

text \<open>
  \<^verbatim>\<open>validate_connection\<close>: the whole body sits in \<^verbatim>\<open>try ... except Exception\<close>, which
  returns \<^verbatim>\<open>False\<close>. The result is the answer, the client with its updated check
  time, and the world.
\<close>

definition validate_connection :: "client \<Rightarrow> world \<Rightarrow> bool \<times> client \<times> world" where
  "validate_connection c w =
     (if api c = None then (False, c, w)
      else
        let now = clock w
        in if (case last_connection_check c of
                 None \<Rightarrow> False
               | Some t \<Rightarrow> td_seconds (now - t) < 300)
           then (True, c, w)
           else (case execute_with_retry (api_request c (ApiCall [PStr ''version''] ''get'' [])) 3 1 w of
                   (Inl e, w1) \<Rightarrow> (False, c, w1)
                 | (Inr version_info, w1) \<Rightarrow>
                     if truthy version_info
                     then (True, c\<lparr>last_connection_check := Some now\<rparr>, w1)
                     else (False, c, w1)))"

text \<open>The domain accessors: one remote call each, through the retry wrapper with its defaults.\<close>

definition client_start_vm :: "client \<Rightarrow> pyval \<Rightarrow> pyval \<Rightarrow> pyval operation" where
  "client_start_vm c node vmid =
     execute_with_retry
       (api_request c (ApiCall [PStr ''nodes'', node, PStr ''qemu'', vmid, PStr ''status'', PStr ''start'']
                         ''post'' [])) 3 1"

definition get_task_status :: "client \<Rightarrow> pyval \<Rightarrow> pyval \<Rightarrow> pyval operation" where
  "get_task_status c node upid =
     execute_with_retry
       (api_request c (ApiCall [PStr ''nodes'', node, PStr ''tasks'', upid, PStr ''status''] ''get'' [])) 3 1"

text \<open>
  \<^verbatim>\<open>x[k]\<close> for a string key: a dictionary without the key raises \<^verbatim>\<open>KeyError\<close>, a
  value that is no dictionary raises \<^verbatim>\<open>TypeError\<close>.
\<close>

definition subscript :: "pyval \<Rightarrow> string \<Rightarrow> exn + pyval" where
  "subscript v k =
     (case v of
        PDict d \<Rightarrow> (case map_of d k of None \<Rightarrow> Inl (KeyError k) | Some x \<Rightarrow> Inr x)
      | PNone \<Rightarrow> Inl (TypeError (quoted ''NoneType'' @ '' object is not subscriptable''))
      | PBool b \<Rightarrow> Inl (TypeError (quoted ''bool'' @ '' object is not subscriptable''))
      | PInt i \<Rightarrow> Inl (TypeError (quoted ''int'' @ '' object is not subscriptable''))
      | PStr s \<Rightarrow> Inl (TypeError ''string indices must be integers'')
      | PList xs \<Rightarrow> Inl (TypeError ''list indices must be integers or slices, not str''))"

text \<open>The f-string of the \<^verbatim>\<open>raise\<close> in \<^verbatim>\<open>wait_for_task\<close>.\<close>

definition timed_out_message :: "pyval \<Rightarrow> int \<Rightarrow> string" where
  "timed_out_message upid timeout =
     ''Task '' @ py_str upid @ '' timed out after '' @ str_int timeout @ '' seconds''"

text \<open>
  \<^verbatim>\<open>wait_for_task\<close>: the \<^verbatim>\<open>while True\<close> loop need not end, so the loop is a partial
  function and \<open>None\<close> stands for a call that never returns.
\<close>

partial_function (option) wait_loop ::
  "client \<Rightarrow> pyval \<Rightarrow> pyval \<Rightarrow> int \<Rightarrow> int \<Rightarrow> world \<Rightarrow> ((exn + pyval) \<times> world) option" where
  "wait_loop c node upid timeout start_time w =
     (case get_task_status c node upid w of
        (Inl e, w1) \<Rightarrow> Some (Inl e, w1)
      | (Inr status, w1) \<Rightarrow>
          (case subscript status ''status'' of
             Inl e \<Rightarrow> Some (Inl e, w1)
           | Inr s \<Rightarrow>
               if s \<noteq> PStr ''running'' then Some (Inr status, w1)
               else if td_seconds (clock w1 - start_time) > timeout
               then Some (Inl (ProxmoxMCPException_init (timed_out_message upid timeout) None None), w1)
               else wait_loop c node upid timeout start_time (sleep 2 w1)))"

declare wait_loop.simps [code]

definition wait_for_task ::
  "client \<Rightarrow> pyval \<Rightarrow> pyval \<Rightarrow> int \<Rightarrow> world \<Rightarrow> ((exn + pyval) \<times> world) option" where
  "wait_for_task c node upid timeout w = wait_loop c node upid timeout (clock w) w"

section \<open>VM service (services/vm_service.py)\<close>

definition VMService_start_vm :: "client \<Rightarrow> pyval \<Rightarrow> pyval \<Rightarrow> pyval operation" where
  "VMService_start_vm c node vmid w =
     (case client_start_vm c node vmid w of
        (Inr task_id, w1) \<Rightarrow>
          (Inr (PDict [(''vmid'', vmid), (''node'', node), (''task_id'', task_id),
                       (''action'', PStr ''start''), (''status'', PStr ''started'')]), w1)
      | (Inl e, w1) \<Rightarrow>
          (Inl (ProxmoxMCPException_init (''Failed to start VM: '' @ str_exn e) None None), w1))"

section \<open>Tool dispatcher (mcp_server.py)\<close>

text \<open>
  The tools announced by \<^verbatim>\<open>handle_list_tools\<close>: the name and the \<^verbatim>\<open>required\<close> list of
  the input schema (empty where the schema has none).
\<close>

definition tools :: "(string \<times> string list) list" where
  "tools =
    [(''list_vms'', []),
     (''get_vm_details'', [''node'', ''vmid'']),
     (''create_vm'', [''node'', ''vmid'', ''config'']),
     (''start_vm'', [''node'', ''vmid'']),
     (''stop_vm'', [''node'', ''vmid'']),
     (''delete_vm'', [''node'', ''vmid'']),
     (''clone_vm'', [''node'', ''vmid'', ''newid'']),
     (''migrate_vm'', [''node'', ''vmid'', ''target_node'']),
     (''list_containers'', []),
     (''get_container_details'', [''node'', ''vmid'']),
     (''create_container'', [''node'', ''vmid'', ''config'']),
     (''start_container'', [''node'', ''vmid'']),
     (''stop_container'', [''node'', ''vmid'']),
     (''delete_container'', [''node'', ''vmid'']),
     (''clone_container'', [''node'', ''vmid'', ''newid'']),
     (''get_cluster_status'', []),
     (''get_cluster_resources'', []),
     (''get_ha_resources'', []),
     (''list_storages'', []),
     (''get_storage_status'', [''node'', ''storage'']),
     (''get_storage_content'', [''node'', ''storage'']),
     (''get_network_config'', [''node'']),
     (''create_bridge'', [''node'', ''bridge_name'']),
     (''list_nodes'', []),
     (''get_node_status'', [''node'']),
     (''get_node_services'', [''node'']),
     (''create_backup'', [''node'', ''vmid'', ''config'']),
     (''list_backups'', []),
     (''restore_backup'', [''node'', ''vmid'', ''archive''])]"

text \<open>
  The argument expressions of a handler call are evaluated left to right before the
  call: \<^verbatim>\<open>arguments["k"]\<close> raises \<^verbatim>\<open>KeyError\<close> on a missing key,
  \<^verbatim>\<open>arguments.get("k", d)\<close> never raises.
\<close>

fun required :: "(string \<times> pyval) list \<Rightarrow> string list \<Rightarrow> exn + pyval list" where
  "required arguments [] = Inr []"
| "required arguments (k # ks) =
     (case map_of arguments k of
        None \<Rightarrow> Inl (KeyError k)
      | Some v \<Rightarrow> (case required arguments ks of Inl e \<Rightarrow> Inl e | Inr vs \<Rightarrow> Inr (v # vs)))"

definition dict_get :: "(string \<times> pyval) list \<Rightarrow> string \<Rightarrow> pyval \<Rightarrow> pyval" where
  "dict_get d k dflt = (case map_of d k of None \<Rightarrow> dflt | Some v \<Rightarrow> v)"

definition invoke ::
  "exn + pyval list \<Rightarrow> pyval list \<Rightarrow> (pyval list \<Rightarrow> pyval operation) \<Rightarrow> pyval operation" where
  "invoke req opt handler w = (case req of Inl e \<Rightarrow> (Inl e, w) | Inr vs \<Rightarrow> handler (vs @ opt) w)"

text \<open>
  \<^verbatim>\<open>_execute_tool\<close>. The handler of \<^verbatim>\<open>start_vm\<close> is the one modelled above; the other
  service methods are collaborators, given as \<open>services\<close>: the method called and its
  positional arguments. A service method that never returns is not a value of
  \<open>services\<close>; the dispatcher then does not return either.
\<close>

definition execute_tool ::
  "(string \<Rightarrow> pyval list \<Rightarrow> pyval operation) \<Rightarrow> client \<Rightarrow> string \<Rightarrow> (string \<times> pyval) list
     \<Rightarrow> pyval operation" where
  "execute_tool services c name arguments w =
    (if name = ''list_vms'' then
       (let filters = (case map_of arguments ''status'' of None \<Rightarrow> [] | Some v \<Rightarrow> [(''status'', v)])
        in services ''vm_service.list_vms'' [dict_get arguments ''node'' PNone, PDict filters] w)
     else if name = ''get_vm_details'' then
       invoke (required arguments [''node'', ''vmid'']) [] (services ''vm_service.get_vm_details'') w
     else if name = ''create_vm'' then
       invoke (required arguments [''node'', ''vmid'', ''config'']) [] (services ''vm_service.create_vm'') w
     else if name = ''start_vm'' then
       (case map_of arguments ''node'' of
          None \<Rightarrow> (Inl (KeyError ''node''), w)
        | Some node \<Rightarrow>
            (case map_of arguments ''vmid'' of
               None \<Rightarrow> (Inl (KeyError ''vmid''), w)
             | Some vmid \<Rightarrow> VMService_start_vm c node vmid w))
     else if name = ''stop_vm'' then
       invoke (required arguments [''node'', ''vmid'']) [dict_get arguments ''force'' (PBool False)]
         (services ''vm_service.stop_vm'') w
     else if name = ''delete_vm'' then
       invoke (required arguments [''node'', ''vmid'']) [dict_get arguments ''purge'' (PBool False)]
         (services ''vm_service.delete_vm'') w
     else if name = ''clone_vm'' then
       invoke (required arguments [''node'', ''vmid'', ''newid'']) [dict_get arguments ''config'' PNone]
         (services ''vm_service.clone_vm'') w
     else if name = ''migrate_vm'' then
       invoke (required arguments [''node'', ''vmid'', ''target_node'']) [dict_get arguments ''config'' PNone]
         (services ''vm_service.migrate_vm'') w
     else if name = ''list_containers'' then
       (let filters = (case map_of arguments ''status'' of None \<Rightarrow> [] | Some v \<Rightarrow> [(''status'', v)])
        in services ''lxc_service.list_containers'' [dict_get arguments ''node'' PNone, PDict filters] w)
     else if name = ''get_container_details'' then
       invoke (required arguments [''node'', ''vmid'']) [] (services ''lxc_service.get_container_details'') w
     else if name = ''create_container'' then
       invoke (required arguments [''node'', ''vmid'', ''config'']) []
         (services ''lxc_service.create_container'') w
     else if name = ''start_container'' then
       invoke (required arguments [''node'', ''vmid'']) [] (services ''lxc_service.start_container'') w
     else if name = ''stop_container'' then
       invoke (required arguments [''node'', ''vmid'']) [dict_get arguments ''force'' (PBool False)]
         (services ''lxc_service.stop_container'') w
     else if name = ''delete_container'' then
       invoke (required arguments [''node'', ''vmid'']) [dict_get arguments ''purge'' (PBool False)]
         (services ''lxc_service.delete_container'') w
     else if name = ''clone_container'' then
       invoke (required arguments [''node'', ''vmid'', ''newid'']) [dict_get arguments ''config'' PNone]
         (services ''lxc_service.clone_container'') w
     else if name = ''get_cluster_status'' then
       services ''cluster_service.get_cluster_status'' [] w
     else if name = ''get_cluster_resources'' then
       services ''cluster_service.get_cluster_resources'' [dict_get arguments ''type'' PNone] w
     else if name = ''get_ha_resources'' then
       services ''cluster_service.get_ha_resources'' [] w
     else if name = ''list_storages'' then
       services ''storage_service.list_storages'' [dict_get arguments ''node'' PNone] w
     else if name = ''get_storage_status'' then
       invoke (required arguments [''node'', ''storage'']) [] (services ''storage_service.get_storage_status'') w
     else if name = ''get_storage_content'' then
       invoke (required arguments [''node'', ''storage'']) [dict_get arguments ''content_type'' PNone]
         (services ''storage_service.get_storage_content'') w
     else if name = ''get_network_config'' then
       invoke (required arguments [''node'']) [] (services ''network_service.get_network_config'') w
     else if name = ''create_bridge'' then
       invoke (required arguments [''node'', ''bridge_name'']) [dict_get arguments ''config'' PNone]
         (services ''network_service.create_bridge'') w
     else if name = ''list_nodes'' then
       services ''node_service.list_nodes'' [] w
     else if name = ''get_node_status'' then
       invoke (required arguments [''node'']) [] (services ''node_service.get_node_status'') w
     else if name = ''get_node_services'' then
       invoke (required arguments [''node'']) [] (services ''node_service.get_node_services'') w
     else if name = ''create_backup'' then
       invoke (required arguments [''node'', ''vmid'', ''config'']) [] (services ''backup_service.create_backup'') w
     else if name = ''list_backups'' then
       services ''backup_service.list_backups''
         [dict_get arguments ''node'' PNone, dict_get arguments ''storage'' PNone] w
     else if name = ''restore_backup'' then
       invoke (required arguments [''node'', ''vmid'', ''archive'']) [dict_get arguments ''config'' PNone]
         (services ''backup_service.restore_backup'') w
     else (Inl (ProxmoxMCPException_init (''Unknown tool: '' @ name) None None), w))"

datatype TextContent = TextContent (content_type: string) (content_text: string)

text \<open>
  \<^verbatim>\<open>handle_call_tool\<close>: the result as text, or the text of whatever exception the tool
  raised.
\<close>

definition handle_call_tool ::
  "(string \<Rightarrow> pyval list \<Rightarrow> pyval operation) \<Rightarrow> client \<Rightarrow> string \<Rightarrow> (string \<times> pyval) list
     \<Rightarrow> world \<Rightarrow> TextContent list \<times> world" where
  "handle_call_tool services c name arguments w =
     (case execute_tool services c name arguments w of
        (Inr result, w1) \<Rightarrow> ([TextContent ''text'' (py_str result)], w1)
      | (Inl e, w1) \<Rightarrow> ([TextContent ''text'' (''Tool execution failed: '' @ str_exn e)], w1))"

section \<open>Reference points for the statements below\<close>

text \<open>
  The world at the start of poll number \<open>n\<close> of a task wait in which each earlier poll
  was followed by the wait of two seconds.
\<close>

fun polls_world :: "client \<Rightarrow> pyval \<Rightarrow> pyval \<Rightarrow> nat \<Rightarrow> world \<Rightarrow> world" where
  "polls_world c node upid 0 w = w"
| "polls_world c node upid (Suc n) w =
     polls_world c node upid n (sleep 2 (snd (get_task_status c node upid w)))"

text \<open>The outcome of poll number \<open>i\<close> of such a wait, and the world right after it.\<close>

definition poll :: "client \<Rightarrow> pyval \<Rightarrow> pyval \<Rightarrow> world \<Rightarrow> nat \<Rightarrow> (exn + pyval) \<times> world" where
  "poll c node upid w i = get_task_status c node upid (polls_world c node upid i w)"

text \<open>
  Poll number \<open>i\<close> reports the task as running, at a time when the whole seconds
  elapsed since the wait began in world \<open>w\<close>, less than a day, do not exceed the timeout.
\<close>

definition running_poll :: "client \<Rightarrow> pyval \<Rightarrow> pyval \<Rightarrow> int \<Rightarrow> world \<Rightarrow> nat \<Rightarrow> bool" where
  "running_poll c node upid timeout w i =
     (case poll c node upid w i of
        (Inr status, w1) \<Rightarrow>
          subscript status ''status'' = Inr (PStr ''running'')
          \<and> 0 \<le> clock w1 - clock w \<and> clock w1 - clock w < 86400000000
          \<and> (clock w1 - clock w) div 1000000 \<le> timeout
      | (Inl e, w1) \<Rightarrow> False)"

text \<open>Whether an outcome is an exception of the given class of exceptions.py.\<close>

definition raises_class :: "exn + 'a \<Rightarrow> exn_class \<Rightarrow> bool" where
  "raises_class r k = (case r of Inl (ProxmoxError c m code det extra) \<Rightarrow> c = k | _ \<Rightarrow> False)"

text \<open>Test doubles: a fresh world, a connected client, and scripted remote endpoints.\<close>

definition version_call :: api_call where
  "version_call = ApiCall [PStr ''version''] ''get'' []"

definition world0 :: world where
  "world0 = \<lparr>clock = 0, trace = []\<rparr>"

definition connected :: "remote \<Rightarrow> client" where
  "connected r = \<lparr>api = Some r, last_connection_check = None\<rparr>"

definition no_services :: "string \<Rightarrow> pyval list \<Rightarrow> pyval operation" where
  "no_services method args w = (Inl (RemoteError ''service unavailable''), w)"

text \<open>Fails the first \<open>k\<close> calls it receives, then answers; every call takes 5 ms.\<close>

definition flaky_remote :: "nat \<Rightarrow> remote" where
  "flaky_remote k w call =
     (if ncalls w < k then Inl (RemoteError ''boom'') else Inr (PDict [(''version'', PStr ''8.1'')]), 5000)"

definition failing_remote :: remote where
  "failing_remote w call = (Inl (RemoteError (''boom '' @ str_nat (ncalls w))), 5000)"

text \<open>
  Reports a task as running for the first \<open>k\<close> polls and as finished afterwards; every
  call takes the given time.
\<close>

definition task_remote :: "nat \<Rightarrow> int \<Rightarrow> remote" where
  "task_remote k took w call =
     (if ncalls w < k then Inr (PDict [(''status'', PStr ''running'')])
      else Inr (PDict [(''status'', PStr ''stopped''), (''exitstatus'', PStr ''OK'')]), took)"

definition status_call :: api_call where
  "status_call = ApiCall [PStr ''nodes'', PStr ''pve1'', PStr ''tasks'', PStr ''UPID:123'', PStr ''status''] ''get'' []"

definition always_running :: "int \<Rightarrow> remote" where
  "always_running took w call = (Inr (PDict [(''status'', PStr ''running'')]), took)"

text \<open>
  Accepts the start call for VM 101 on node pve1 with the task handle \<^verbatim>\<open>UPID:123\<close>,
  reports that task as running for two polls and as finished afterwards, and rejects
  every other call.
\<close>

definition start_vm_remote :: remote where
  "start_vm_remote w call =
     (if call = ApiCall [PStr ''nodes'', PStr ''pve1'', PStr ''qemu'', PInt 101, PStr ''status'', PStr ''start'']
                  ''post'' []
      then (Inr (PStr ''UPID:123''), 50000)
      else if call = ApiCall [PStr ''nodes'', PStr ''pve1'', PStr ''tasks'', PStr ''UPID:123'', PStr ''status'']
                       ''get'' []
      then (if length (filter (\<lambda>e. e = Call call) (trace w)) < 2
            then Inr (PDict [(''status'', PStr ''running'')])
            else Inr (PDict [(''status'', PStr ''stopped''), (''exitstatus'', PStr ''OK'')]), 50000)
      else (Inl (RemoteError ''501 Not Implemented''), 50000))"

definition start_call :: api_call where
  "start_call = ApiCall [PStr ''nodes'', PStr ''pve1'', PStr ''qemu'', PInt 101, PStr ''status'', PStr ''start'']
                  ''post'' []"

definition start_vm_arguments :: "(string \<times> pyval) list" where
  "start_vm_arguments = [(''node'', PStr ''pve1''), (''vmid'', PInt 101)]"

section \<open>Properties of the authorization gate\<close>

lemma map_of_ROLES_unknown:
  "r \<noteq> ''admin'' \<Longrightarrow> r \<noteq> ''operator'' \<Longrightarrow> r \<noteq> ''viewer'' \<Longrightarrow> map_of ROLES r = None"
  by (simp add: ROLES_def)

lemma map_of_ROLES_known: "(r, ps) \<in> set ROLES \<Longrightarrow> map_of ROLES r = Some ps"
  by (auto simp: ROLES_def)

text \<open>
  C5. \<open>check_permission\<close> is a function of the enforcement switch, the role and the
  permission alone. With enforcement off it grants every pair. With enforcement on, a
  role outside the table has the empty permission set and is denied everything, and a
  role of the table is granted exactly the members of its list.
\<close>

theorem check_permission_spec:
  "(\<not> enable_rbac s \<longrightarrow> check_permission s role p)
   \<and> (enable_rbac s \<and> role \<notin> fst ` set ROLES \<longrightarrow> get_user_permissions role = [] \<and> \<not> check_permission s role p)
   \<and> (enable_rbac s \<and> (role, ps) \<in> set ROLES \<longrightarrow> check_permission s role p = (p \<in> set ps))"
proof -
  have off: "\<not> enable_rbac s \<longrightarrow> check_permission s role p"
    by (simp add: check_permission_def)
  have unknown: "enable_rbac s \<and> role \<notin> fst ` set ROLES
      \<longrightarrow> get_user_permissions role = [] \<and> \<not> check_permission s role p"
  proof
    assume a: "enable_rbac s \<and> role \<notin> fst ` set ROLES"
    then have "map_of ROLES role = None" by (simp add: map_of_eq_None_iff)
    with a show "get_user_permissions role = [] \<and> \<not> check_permission s role p"
      by (simp add: check_permission_def get_user_permissions_def)
  qed
  have known: "enable_rbac s \<and> (role, ps) \<in> set ROLES \<longrightarrow> check_permission s role p = (p \<in> set ps)"
  proof
    assume a: "enable_rbac s \<and> (role, ps) \<in> set ROLES"
    then have "map_of ROLES role = Some ps" by (simp add: map_of_ROLES_known)
    with a show "check_permission s role p = (p \<in> set ps)"
      by (simp add: check_permission_def)
  qed
  from off unknown known show ?thesis by blast
qed

theorem check_permission_spec_witness:
  "check_permission \<lparr>enable_rbac = False\<rparr> ''nobody'' ''vm:delete''
   \<and> get_user_permissions ''nobody'' = []
   \<and> \<not> check_permission \<lparr>enable_rbac = True\<rparr> ''nobody'' ''vm:monitor''
   \<and> check_permission \<lparr>enable_rbac = True\<rparr> ''viewer'' ''vm:monitor''
   \<and> \<not> check_permission \<lparr>enable_rbac = True\<rparr> ''viewer'' ''vm:start''"
proof -
  have v: "(''viewer'', [''vm:monitor'', ''lxc:monitor'', ''node:monitor'', ''cluster:monitor'',
        ''storage:monitor'', ''network:monitor'', ''backup:monitor'', ''system:monitor'']) \<in> set ROLES"
    by (simp add: ROLES_def)
  have n: "''nobody'' \<notin> fst ` set ROLES" by (simp add: ROLES_def)
  let ?vl = "[''vm:monitor'', ''lxc:monitor'', ''node:monitor'', ''cluster:monitor'',
        ''storage:monitor'', ''network:monitor'', ''backup:monitor'', ''system:monitor'']"
  show ?thesis
    using check_permission_spec [of "\<lparr>enable_rbac = False\<rparr>" "''nobody''" "''vm:delete''" "[]"]
      check_permission_spec [of "\<lparr>enable_rbac = True\<rparr>" "''nobody''" "''vm:monitor''" "[]"]
      check_permission_spec [of "\<lparr>enable_rbac = True\<rparr>" "''viewer''" "''vm:monitor''" ?vl]
      check_permission_spec [of "\<lparr>enable_rbac = True\<rparr>" "''viewer''" "''vm:start''" ?vl]
      v n
    by simp
qed

lemma viewer_permissions:
  "get_user_permissions ''viewer'' =
     [''vm:monitor'', ''lxc:monitor'', ''node:monitor'', ''cluster:monitor'',
      ''storage:monitor'', ''network:monitor'', ''backup:monitor'', ''system:monitor'']"
  by (simp add: get_user_permissions_def ROLES_def)

lemma operator_permissions:
  "get_user_permissions ''operator'' =
     [''vm:start'', ''vm:stop'', ''vm:clone'', ''vm:snapshot'', ''vm:monitor'',
      ''lxc:start'', ''lxc:stop'', ''lxc:clone'', ''lxc:snapshot'', ''lxc:monitor'',
      ''node:monitor'', ''node:tasks'', ''cluster:monitor'', ''storage:monitor'', ''storage:upload'',
      ''network:monitor'', ''backup:create'', ''backup:monitor'', ''system:monitor'']"
  by (simp add: get_user_permissions_def ROLES_def)

lemma viewer_subset_operator:
  "set (get_user_permissions ''viewer'') \<subseteq> set (get_user_permissions ''operator'')"
  unfolding viewer_permissions operator_permissions by simp

lemma operator_subset_admin:
  "set (get_user_permissions ''operator'') \<subseteq> set (get_user_permissions ''admin'')"
  unfolding operator_permissions by (simp add: get_user_permissions_def ROLES_def)

lemma check_permission_enabled:
  "enable_rbac s \<Longrightarrow> check_permission s role p = (p \<in> set (get_user_permissions role))"
  by (simp add: check_permission_def get_user_permissions_def)

text \<open>
  C6. The built-in roles are strictly nested: every viewer permission is an operator
  permission and every operator permission is an admin permission, each inclusion being
  proper; with enforcement on, what \<open>check_permission\<close> grants a viewer it grants an
  operator, and what it grants an operator it grants an admin.
\<close>

theorem roles_nested:
  "set (get_user_permissions ''viewer'') \<subset> set (get_user_permissions ''operator'')
   \<and> set (get_user_permissions ''operator'') \<subset> set (get_user_permissions ''admin'')
   \<and> (enable_rbac s \<longrightarrow>
        (check_permission s ''viewer'' p \<longrightarrow> check_permission s ''operator'' p)
        \<and> (check_permission s ''operator'' p \<longrightarrow> check_permission s ''admin'' p))"
proof (intro conjI impI)
  have "''vm:start'' \<in> set (get_user_permissions ''operator'')"
    unfolding operator_permissions by simp
  moreover have "''vm:start'' \<notin> set (get_user_permissions ''viewer'')"
    unfolding viewer_permissions by simp
  ultimately show "set (get_user_permissions ''viewer'') \<subset> set (get_user_permissions ''operator'')"
    using viewer_subset_operator by blast
next
  have "''vm:delete'' \<in> set (get_user_permissions ''admin'')"
    by (simp add: get_user_permissions_def ROLES_def)
  moreover have "''vm:delete'' \<notin> set (get_user_permissions ''operator'')"
    unfolding operator_permissions by simp
  ultimately show "set (get_user_permissions ''operator'') \<subset> set (get_user_permissions ''admin'')"
    using operator_subset_admin by blast
next
  assume "enable_rbac s" "check_permission s ''viewer'' p"
  then show "check_permission s ''operator'' p"
    using viewer_subset_operator by (auto simp: check_permission_enabled)
next
  assume "enable_rbac s" "check_permission s ''operator'' p"
  then show "check_permission s ''admin'' p"
    using operator_subset_admin by (auto simp: check_permission_enabled)
qed

theorem roles_nested_witness:
  "check_permission \<lparr>enable_rbac = True\<rparr> ''viewer'' ''node:monitor''
   \<and> check_permission \<lparr>enable_rbac = True\<rparr> ''operator'' ''node:monitor''
   \<and> check_permission \<lparr>enable_rbac = True\<rparr> ''admin'' ''node:monitor''"
proof -
  have v: "check_permission \<lparr>enable_rbac = True\<rparr> ''viewer'' ''node:monitor''"
    by (simp add: check_permission_enabled viewer_permissions)
  show ?thesis
    using v roles_nested [of "\<lparr>enable_rbac = True\<rparr>" "''node:monitor''"] by simp
qed

section \<open>Properties of the retry wrapper\<close>

lemma ncalls_sleep: "ncalls (sleep d w) = ncalls w"
  by (simp add: ncalls_def sleep_def)

lemma retry_loop_succeeds:
  assumes cnt: "\<forall>w. ncalls (snd (operation w)) = Suc (ncalls w)"
    and out: "\<forall>w. fst (operation w) = outcome (ncalls w)"
  shows "k < length as \<Longrightarrow> (\<forall>i<k. isl (outcome (ncalls w + i))) \<Longrightarrow> outcome (ncalls w + k) = Inr v
    \<Longrightarrow> fst (retry_loop operation mr delay as le w) = Inr v
      \<and> ncalls (snd (retry_loop operation mr delay as le w)) = ncalls w + k + 1"
proof (induction k arbitrary: as le w)
  case 0
  then obtain a rest where as: "as = a # rest" by (cases as) auto
  obtain r w1 where ow: "operation w = (r, w1)" by (cases "operation w")
  from out ow have r: "r = outcome (ncalls w)" by (metis fst_conv)
  from cnt ow have n1: "ncalls w1 = Suc (ncalls w)" by (metis snd_conv)
  from 0 r have "r = Inr v" by simp
  with as ow n1 show ?case by simp
next
  case (Suc k)
  then obtain a rest where as: "as = a # rest" by (cases as) auto
  obtain r w1 where ow: "operation w = (r, w1)" by (cases "operation w")
  from out ow have r: "r = outcome (ncalls w)" by (metis fst_conv)
  from cnt ow have n1: "ncalls w1 = Suc (ncalls w)" by (metis snd_conv)
  from Suc.prems(2) have "isl (outcome (ncalls w + 0))" by blast
  with r have "isl r" by simp
  then obtain e where e: "r = Inl e" by (cases r) auto
  define w2 where "w2 = (if int a < mr - 1 then sleep (delay * 2 ^ a) w1 else w1)"
  have n2: "ncalls w2 = Suc (ncalls w)" by (simp add: w2_def n1 ncalls_sleep)
  have step: "retry_loop operation mr delay as le w = retry_loop operation mr delay rest (Some e) w2"
    by (simp add: as ow e w2_def)
  have len: "k < length rest" using Suc.prems(1) as by simp
  have fl: "\<forall>i<k. isl (outcome (ncalls w2 + i))"
  proof (intro allI impI)
    fix i assume "i < k"
    then have "Suc i < Suc k" by simp
    with Suc.prems(2) have "isl (outcome (ncalls w + Suc i))" by blast
    then show "isl (outcome (ncalls w2 + i))" by (simp add: n2)
  qed
  have sc: "outcome (ncalls w2 + k) = Inr v" using Suc.prems(3) by (simp add: n2)
  from Suc.IH[OF len fl sc, of "Some e"] show ?case by (simp add: step n2)
qed

lemma retry_loop_exhausted:
  assumes cnt: "\<forall>w. ncalls (snd (operation w)) = Suc (ncalls w)"
    and out: "\<forall>w. fst (operation w) = outcome (ncalls w)"
  shows "(\<forall>i<length as. isl (outcome (ncalls w + i)))
    \<Longrightarrow> fst (retry_loop operation mr delay as le w) =
          Inl (ProxmoxMCPException_init
                (exhausted_message mr
                  (if as = [] then le else Some (projl (outcome (ncalls w + length as - 1))))) None None)
      \<and> ncalls (snd (retry_loop operation mr delay as le w)) = ncalls w + length as"
proof (induction as arbitrary: le w)
  case Nil
  show ?case by simp
next
  case (Cons a rest)
  obtain r w1 where ow: "operation w = (r, w1)" by (cases "operation w")
  from out ow have r: "r = outcome (ncalls w)" by (metis fst_conv)
  from cnt ow have n1: "ncalls w1 = Suc (ncalls w)" by (metis snd_conv)
  from Cons.prems have "isl (outcome (ncalls w + 0))" by (metis length_greater_0_conv list.discI)
  with r have "isl r" by simp
  then obtain e where e: "r = Inl e" by (cases r) auto
  define w2 where "w2 = (if int a < mr - 1 then sleep (delay * 2 ^ a) w1 else w1)"
  have n2: "ncalls w2 = Suc (ncalls w)" by (simp add: w2_def n1 ncalls_sleep)
  have step: "retry_loop operation mr delay (a # rest) le w = retry_loop operation mr delay rest (Some e) w2"
    by (simp add: ow e w2_def)
  have fl: "\<forall>i<length rest. isl (outcome (ncalls w2 + i))"
  proof (intro allI impI)
    fix i assume "i < length rest"
    then have "Suc i < length (a # rest)" by simp
    with Cons.prems have "isl (outcome (ncalls w + Suc i))" by blast
    then show "isl (outcome (ncalls w2 + i))" by (simp add: n2)
  qed
  have pe: "projl (outcome (ncalls w)) = e" using r e by (metis sum.sel(1))
  have last: "(if rest = [] then Some e else Some (projl (outcome (ncalls w2 + length rest - 1))))
      = Some (projl (outcome (ncalls w + length (a # rest) - 1)))"
    by (simp add: n2 pe)
  from Cons.IH[OF fl, of "Some e"] show ?case
    unfolding step last by (simp add: n2)
qed

lemma api_request_counts: "api c = Some r \<Longrightarrow> ncalls (snd (api_request c call w)) = Suc (ncalls w)"
  by (simp add: api_request_def ncalls_def split: prod.splits)

lemma api_request_outcome: "api c = Some r \<Longrightarrow> fst (api_request c call w) = fst (r w call)"
  by (simp add: api_request_def split: prod.splits)

text \<open>
  C2 (as amended). Take an operation that records each of its invocations as one remote
  call and whose outcome depends on how many calls were made before. If it fails
  \<open>k < max_retries\<close> times and then succeeds, \<open>execute_with_retry\<close> returns the success
  value after exactly \<open>k + 1\<close> invocations. If it fails every time and \<open>max_retries\<close> is
  positive, it is invoked exactly \<open>max_retries\<close> times, and the error raised is an
  instance of the base class \<^verbatim>\<open>ProxmoxMCPException\<close> with the code
  \<^verbatim>\<open>PROXMOX_MCP_ERROR\<close>, no details, and a message that ends in the text of the last
  underlying error.
\<close>

theorem execute_with_retry_attempts:
  assumes cnt: "\<forall>w. ncalls (snd (operation w)) = Suc (ncalls w)"
    and out: "\<forall>w. fst (operation w) = outcome (ncalls w)"
  shows "(k < nat max_retries \<and> (\<forall>i<k. isl (outcome (ncalls w + i))) \<and> outcome (ncalls w + k) = Inr v
            \<longrightarrow> fst (execute_with_retry operation max_retries delay w) = Inr v
              \<and> ncalls (snd (execute_with_retry operation max_retries delay w)) = ncalls w + (k + 1))
       \<and> (0 < max_retries \<and> (\<forall>i. isl (outcome i))
            \<longrightarrow> fst (execute_with_retry operation max_retries delay w) =
                  Inl (ProxmoxError ProxmoxMCPException
                         (''Operation failed after '' @ str_int max_retries @ '' attempts: ''
                          @ str_exn (projl (outcome (ncalls w + nat max_retries - 1))))
                         ''PROXMOX_MCP_ERROR'' [] [])
              \<and> ncalls (snd (execute_with_retry operation max_retries delay w)) = ncalls w + nat max_retries)"
proof -
  have succeeds: "k < nat max_retries \<and> (\<forall>i<k. isl (outcome (ncalls w + i))) \<and> outcome (ncalls w + k) = Inr v
      \<longrightarrow> fst (execute_with_retry operation max_retries delay w) = Inr v
        \<and> ncalls (snd (execute_with_retry operation max_retries delay w)) = ncalls w + (k + 1)"
  proof
    assume a: "k < nat max_retries \<and> (\<forall>i<k. isl (outcome (ncalls w + i))) \<and> outcome (ncalls w + k) = Inr v"
    then have len: "k < length [0..<nat max_retries]" by simp
    from retry_loop_succeeds [OF cnt out len, of w v max_retries delay None] a
    show "fst (execute_with_retry operation max_retries delay w) = Inr v
        \<and> ncalls (snd (execute_with_retry operation max_retries delay w)) = ncalls w + (k + 1)"
      by (simp add: execute_with_retry_def)
  qed
  have exhausted: "0 < max_retries \<and> (\<forall>i. isl (outcome i))
      \<longrightarrow> fst (execute_with_retry operation max_retries delay w) =
            Inl (ProxmoxError ProxmoxMCPException
                   (''Operation failed after '' @ str_int max_retries @ '' attempts: ''
                    @ str_exn (projl (outcome (ncalls w + nat max_retries - 1))))
                   ''PROXMOX_MCP_ERROR'' [] [])
        \<and> ncalls (snd (execute_with_retry operation max_retries delay w)) = ncalls w + nat max_retries"
  proof
    assume a: "0 < max_retries \<and> (\<forall>i. isl (outcome i))"
    then have fl: "\<forall>i<length [0..<nat max_retries]. isl (outcome (ncalls w + i))" by simp
    from a have ne: "[0..<nat max_retries] \<noteq> []" by simp
    from retry_loop_exhausted [OF cnt out fl, of max_retries delay None] ne
    show "fst (execute_with_retry operation max_retries delay w) =
            Inl (ProxmoxError ProxmoxMCPException
                   (''Operation failed after '' @ str_int max_retries @ '' attempts: ''
                    @ str_exn (projl (outcome (ncalls w + nat max_retries - 1))))
                   ''PROXMOX_MCP_ERROR'' [] [])
        \<and> ncalls (snd (execute_with_retry operation max_retries delay w)) = ncalls w + nat max_retries"
      by (simp add: execute_with_retry_def exhausted_message_def ProxmoxMCPException_init_def
          or_str_def or_dict_def)
  qed
  from succeeds exhausted show ?thesis by blast
qed

lemma flaky_counts:
  "\<forall>w. ncalls (snd (api_request (connected r) call w)) = Suc (ncalls w)"
  by (simp add: api_request_counts connected_def)

lemma str_nat_2: "str_nat 2 = ''2''"
  by (simp add: str_nat.simps)

lemma str_int_3: "str_int 3 = ''3''"
  by (simp add: str_int_def str_nat.simps)

theorem execute_with_retry_attempts_witness:
  "fst (execute_with_retry (api_request (connected (flaky_remote 2)) version_call) 3 1 world0)
     = Inr (PDict [(''version'', PStr ''8.1'')])
   \<and> ncalls (snd (execute_with_retry (api_request (connected (flaky_remote 2)) version_call) 3 1 world0)) = 3
   \<and> fst (execute_with_retry (api_request (connected failing_remote) version_call) 3 1 world0)
     = Inl (ProxmoxError ProxmoxMCPException ''Operation failed after 3 attempts: boom 2''
              ''PROXMOX_MCP_ERROR'' [] [])
   \<and> ncalls (snd (execute_with_retry (api_request (connected failing_remote) version_call) 3 1 world0)) = 3"
proof -
  let ?out1 = "\<lambda>n. if n < 2 then Inl (RemoteError ''boom'') else Inr (PDict [(''version'', PStr ''8.1'')])"
  let ?out2 = "\<lambda>n. Inl (RemoteError (''boom '' @ str_nat n)) :: exn + pyval"
  have o1: "\<forall>w. fst (api_request (connected (flaky_remote 2)) version_call w) = ?out1 (ncalls w)"
    by (simp add: api_request_def connected_def flaky_remote_def)
  have o2: "\<forall>w. fst (api_request (connected failing_remote) version_call w) = ?out2 (ncalls w)"
    by (simp add: api_request_def connected_def failing_remote_def)
  have n0: "ncalls world0 = 0" by (simp add: ncalls_def world0_def)
  from execute_with_retry_attempts [OF flaky_counts o1, of 2 3 world0 "PDict [(''version'', PStr ''8.1'')]" 1]
  have a: "fst (execute_with_retry (api_request (connected (flaky_remote 2)) version_call) 3 1 world0)
     = Inr (PDict [(''version'', PStr ''8.1'')])
   \<and> ncalls (snd (execute_with_retry (api_request (connected (flaky_remote 2)) version_call) 3 1 world0)) = 3"
    by (simp add: n0)
  from execute_with_retry_attempts [OF flaky_counts o2, of 0 3 world0 PNone 1]
  have b: "fst (execute_with_retry (api_request (connected failing_remote) version_call) 3 1 world0)
     = Inl (ProxmoxError ProxmoxMCPException ''Operation failed after 3 attempts: boom 2''
              ''PROXMOX_MCP_ERROR'' [] [])
   \<and> ncalls (snd (execute_with_retry (api_request (connected failing_remote) version_call) 3 1 world0)) = 3"
    by (simp add: n0 str_nat_2 str_int_3)
  from a b show ?thesis by blast
qed

text \<open>
  C2, the claim as stated, fails on the class of the error: for an operation that always
  fails, the error raised after three attempts is not a \<^verbatim>\<open>ProxmoxOperationException\<close>
  but an instance of the base class.
\<close>

theorem execute_with_retry_error_class_counterexample:
  "\<not> raises_class
       (fst (execute_with_retry (api_request (connected failing_remote) version_call) 3 1 world0))
       ProxmoxOperationException
   \<and> fst (execute_with_retry (api_request (connected failing_remote) version_call) 3 1 world0)
     = Inl (ProxmoxError ProxmoxMCPException ''Operation failed after 3 attempts: boom 2''
              ''PROXMOX_MCP_ERROR'' [] [])
   \<and> fst (execute_with_retry (api_request (connected failing_remote) version_call) 3 1 world0)
     \<noteq> Inl (ProxmoxOperationException_init ''Operation failed after 3 attempts: boom 2'' None None)"
  by code_simp

text \<open>
  C10. With \<open>max_retries \<le> 0\<close> the loop body never runs: whatever the operation is, it is
  not invoked, the world is left as it was, and the error raised at once is the
  retry-exhausted one, whose message names \<^verbatim>\<open>None\<close> as the last error.
\<close>

theorem execute_with_retry_no_attempts:
  "max_retries \<le> 0 \<Longrightarrow>
     execute_with_retry operation max_retries delay w =
       (Inl (ProxmoxError ProxmoxMCPException
               (''Operation failed after '' @ str_int max_retries @ '' attempts: None'')
               ''PROXMOX_MCP_ERROR'' [] []), w)"
  by (simp add: execute_with_retry_def exhausted_message_def ProxmoxMCPException_init_def
      or_str_def or_dict_def)

theorem execute_with_retry_no_attempts_witness:
  "execute_with_retry (api_request (connected (flaky_remote 0)) version_call) 0 1 world0 =
     (Inl (ProxmoxError ProxmoxMCPException ''Operation failed after 0 attempts: None''
             ''PROXMOX_MCP_ERROR'' [] []), world0)
   \<and> execute_with_retry (api_request (connected (flaky_remote 0)) version_call) (- 2) 1 world0 =
     (Inl (ProxmoxError ProxmoxMCPException ''Operation failed after -2 attempts: None''
             ''PROXMOX_MCP_ERROR'' [] []), world0)"
  using execute_with_retry_no_attempts [of 0 "api_request (connected (flaky_remote 0)) version_call" 1 world0]
    execute_with_retry_no_attempts [of "- 2" "api_request (connected (flaky_remote 0)) version_call" 1 world0]
  by (simp add: str_int_def str_nat.simps)


section \<open>Properties of the task poller\<close>

lemma td_seconds_within_day: "0 \<le> d \<Longrightarrow> d < 86400000000 \<Longrightarrow> td_seconds d = d div 1000000"
  by (simp add: td_seconds_def)

lemma td_seconds_bound: "0 \<le> td_seconds d \<and> td_seconds d < 86400"
proof -
  have lo: "0 \<le> d mod 86400000000" by simp
  have "d mod 86400000000 < 86400000000" by simp
  then have "d mod 86400000000 \<le> 86399999999" by simp
  then have "(d mod 86400000000) div 1000000 \<le> 86399999999 div 1000000" by (rule zdiv_mono1) simp
  then have hi: "(d mod 86400000000) div 1000000 < 86400" by simp
  from lo have "0 \<le> (d mod 86400000000) div 1000000" by (simp add: pos_imp_zdiv_nonneg_iff)
  with hi show ?thesis by (simp add: td_seconds_def)
qed

lemma wait_loop_continue:
  "get_task_status c node upid w = (Inr st, w1) \<Longrightarrow> subscript st ''status'' = Inr (PStr ''running'')
    \<Longrightarrow> \<not> timeout < td_seconds (clock w1 - start)
    \<Longrightarrow> wait_loop c node upid timeout start w = wait_loop c node upid timeout start (sleep 2 w1)"
  by (subst wait_loop.simps) simp

lemma wait_loop_return:
  "get_task_status c node upid w = (Inr st, w1) \<Longrightarrow> subscript st ''status'' = Inr s \<Longrightarrow> s \<noteq> PStr ''running''
    \<Longrightarrow> wait_loop c node upid timeout start w = Some (Inr st, w1)"
  by (subst wait_loop.simps) simp

lemma wait_loop_timeout:
  "get_task_status c node upid w = (Inr st, w1) \<Longrightarrow> subscript st ''status'' = Inr (PStr ''running'')
    \<Longrightarrow> timeout < td_seconds (clock w1 - start)
    \<Longrightarrow> wait_loop c node upid timeout start w =
         Some (Inl (ProxmoxMCPException_init (timed_out_message upid timeout) None None), w1)"
  by (subst wait_loop.simps) simp


lemma wait_loop_skip:
  "(\<forall>i<n. \<exists>st w1. get_task_status c node upid (polls_world c node upid i w) = (Inr st, w1)
        \<and> subscript st ''status'' = Inr (PStr ''running'')
        \<and> \<not> timeout < td_seconds (clock w1 - start))
   \<Longrightarrow> wait_loop c node upid timeout start w
       = wait_loop c node upid timeout start (polls_world c node upid n w)"
proof (induction n arbitrary: w)
  case 0
  show ?case by simp
next
  case (Suc n)
  have "0 < Suc n" by simp
  with Suc.prems obtain st w1 where f0: "get_task_status c node upid (polls_world c node upid 0 w) = (Inr st, w1)"
    and r: "subscript st ''status'' = Inr (PStr ''running'')"
    and t: "\<not> timeout < td_seconds (clock w1 - start)"
    by blast
  from f0 have f: "get_task_status c node upid w = (Inr st, w1)" by simp
  have step: "wait_loop c node upid timeout start w = wait_loop c node upid timeout start (sleep 2 w1)"
    by (rule wait_loop_continue [OF f r t])
  have shift: "\<And>i. polls_world c node upid (Suc i) w = polls_world c node upid i (sleep 2 w1)"
    by (simp add: f)
  have rest: "\<forall>i<n. \<exists>st w1'. get_task_status c node upid (polls_world c node upid i (sleep 2 w1)) = (Inr st, w1')
        \<and> subscript st ''status'' = Inr (PStr ''running'')
        \<and> \<not> timeout < td_seconds (clock w1' - start)"
  proof (intro allI impI)
    fix i assume "i < n"
    then have "Suc i < Suc n" by simp
    with Suc.prems have "\<exists>st w1'. get_task_status c node upid (polls_world c node upid (Suc i) w) = (Inr st, w1')
        \<and> subscript st ''status'' = Inr (PStr ''running'')
        \<and> \<not> timeout < td_seconds (clock w1' - start)" by blast
    then show "\<exists>st w1'. get_task_status c node upid (polls_world c node upid i (sleep 2 w1)) = (Inr st, w1')
        \<and> subscript st ''status'' = Inr (PStr ''running'')
        \<and> \<not> timeout < td_seconds (clock w1' - start)"
      unfolding shift .
  qed
  from Suc.IH [OF rest] show ?case unfolding step shift .
qed

lemma wait_loop_never_running:
  assumes ret: "wait_loop c node upid timeout start w = Some (Inr st, w')"
  shows "\<exists>s. subscript st ''status'' = Inr s \<and> s \<noteq> PStr ''running''"
proof -
  define P :: "client \<Rightarrow> pyval \<Rightarrow> pyval \<Rightarrow> int \<Rightarrow> int \<Rightarrow> world \<Rightarrow> (exn + pyval) \<times> world \<Rightarrow> bool"
    where "P = (\<lambda>c node upid timeout start w y.
      \<forall>st w'. y = (Inr st, w') \<longrightarrow> (\<exists>s. subscript st ''status'' = Inr s \<and> s \<noteq> PStr ''running''))"
  have "P c node upid timeout start w (Inr st, w')"
  proof (rule wait_loop.raw_induct [where P = P, OF _ ret])
    fix wl c node upid timeout start_time w ca
    assume ih: "\<And>node upid timeout start_time w b y.
        wl node upid timeout start_time w b = Some y \<Longrightarrow> P node upid timeout start_time w b y"
      and body: "(case get_task_status c node upid w of
         (Inl e, w1) \<Rightarrow> Some (Inl e, w1)
       | (Inr status, w1) \<Rightarrow>
          (case subscript status ''status'' of
             Inl e \<Rightarrow> Some (Inl e, w1)
           | Inr s \<Rightarrow>
               if s \<noteq> PStr ''running'' then Some (Inr status, w1)
               else if td_seconds (clock w1 - start_time) > timeout
               then Some (Inl (ProxmoxMCPException_init (timed_out_message upid timeout) None None), w1)
               else wl c node upid timeout start_time (sleep 2 w1))) = Some ca"
    obtain r w1 where f: "get_task_status c node upid w = (r, w1)" by (cases "get_task_status c node upid w")
    show "P c node upid timeout start_time w ca"
    proof (cases r)
      case (Inl e)
      with body f have "ca = (Inl e, w1)" by simp
      then show ?thesis by (simp add: P_def)
    next
      case (Inr status)
      show ?thesis
      proof (cases "subscript status ''status''")
        case (Inl e)
        with body f Inr have "\<exists>e. ca = (Inl e, w1)" by auto
        then show ?thesis by (auto simp add: P_def)
      next
        case s: (Inr s)
        show ?thesis
        proof (cases "s \<noteq> PStr ''running''")
          case True
          with body f Inr s have "ca = (Inr status, w1)" by simp
          with s True show ?thesis by (simp add: P_def)
        next
          case False
          show ?thesis
          proof (cases "td_seconds (clock w1 - start_time) > timeout")
            case True
            with body f Inr s False have "\<exists>e. ca = (Inl e, w1)" by auto
            then show ?thesis by (auto simp add: P_def)
          next
            case nt: False
            with body f Inr s False
            have "wl c node upid timeout start_time (sleep 2 w1) = Some ca" by simp
            from ih [OF this] show ?thesis by (simp add: P_def)
          qed
        qed
      qed
    qed
  qed
  then show ?thesis by (simp add: P_def)
qed

lemma polls_world_Suc:
  "polls_world c node upid (Suc i) w = sleep 2 (snd (poll c node upid w i))"
proof (induction i arbitrary: w)
  case 0
  show ?case by (simp add: poll_def)
next
  case (Suc i)
  have "polls_world c node upid (Suc (Suc i)) w
      = polls_world c node upid (Suc i) (sleep 2 (snd (get_task_status c node upid w)))"
    by simp
  also have "\<dots> = sleep 2 (snd (poll c node upid (sleep 2 (snd (get_task_status c node upid w))) i))"
    by (rule Suc.IH)
  also have "\<dots> = sleep 2 (snd (poll c node upid w (Suc i)))"
    by (simp add: poll_def)
  finally show ?case .
qed

lemma running_polls_skip:
  assumes "\<forall>i<n. running_poll c node upid timeout w i"
  shows "wait_loop c node upid timeout (clock w) w
       = wait_loop c node upid timeout (clock w) (polls_world c node upid n w)"
proof (rule wait_loop_skip, intro allI impI)
  fix i assume "i < n"
  with assms have rp: "running_poll c node upid timeout w i" by blast
  obtain r w1 where f: "get_task_status c node upid (polls_world c node upid i w) = (r, w1)"
    by (cases "get_task_status c node upid (polls_world c node upid i w)")
  from rp f obtain st where r: "r = Inr st"
    by (cases r) (simp_all add: running_poll_def poll_def)
  from rp f r have run: "subscript st ''status'' = Inr (PStr ''running'')"
    and lo: "0 \<le> clock w1 - clock w" and hi: "clock w1 - clock w < 86400000000"
    and le: "(clock w1 - clock w) div 1000000 \<le> timeout"
    by (simp_all add: running_poll_def poll_def)
  from lo hi le have "\<not> timeout < td_seconds (clock w1 - clock w)"
    by (simp add: td_seconds_within_day)
  with f r run
  show "\<exists>st w1. get_task_status c node upid (polls_world c node upid i w) = (Inr st, w1)
        \<and> subscript st ''status'' = Inr (PStr ''running'')
        \<and> \<not> timeout < td_seconds (clock w1 - clock w)"
    by blast
qed

text \<open>
  C3 (as amended). Whatever the remote endpoint answers, a status that
  \<open>wait_for_task\<close> returns has a status field other than \<^verbatim>\<open>running\<close>. Each poll after
  the first starts two seconds of sleep after the one before ended. If the polls before
  poll \<open>n\<close> all report \<^verbatim>\<open>running\<close> within the timeout and poll \<open>n\<close> reports another
  status, that status object is returned right after poll \<open>n\<close>. If poll \<open>n\<close> still
  reports \<^verbatim>\<open>running\<close> and the whole seconds elapsed, less than a day, exceed the
  timeout, the error raised is an instance of the base class \<^verbatim>\<open>ProxmoxMCPException\<close>
  with the code \<^verbatim>\<open>PROXMOX_MCP_ERROR\<close> and no details, whose message holds the task handle
  and the timeout.
\<close>

theorem wait_for_task_spec:
  "(wait_for_task c node upid timeout w = Some (Inr st', w')
      \<longrightarrow> (\<exists>s. subscript st' ''status'' = Inr s \<and> s \<noteq> PStr ''running''))
   \<and> polls_world c node upid (Suc i) w = sleep 2 (snd (poll c node upid w i))
   \<and> clock (sleep 2 w) = clock w + 2000000
   \<and> ((\<forall>i<n. running_poll c node upid timeout w i)
        \<and> poll c node upid w n = (Inr st, w1) \<and> subscript st ''status'' = Inr s \<and> s \<noteq> PStr ''running''
      \<longrightarrow> wait_for_task c node upid timeout w = Some (Inr st, w1))
   \<and> ((\<forall>i<n. running_poll c node upid timeout w i)
        \<and> poll c node upid w n = (Inr st, w1) \<and> subscript st ''status'' = Inr (PStr ''running'')
        \<and> 0 \<le> clock w1 - clock w \<and> clock w1 - clock w < 86400000000
        \<and> timeout < (clock w1 - clock w) div 1000000
      \<longrightarrow> wait_for_task c node upid timeout w =
            Some (Inl (ProxmoxError ProxmoxMCPException
                         (''Task '' @ py_str upid @ '' timed out after '' @ str_int timeout @ '' seconds'')
                         ''PROXMOX_MCP_ERROR'' [] []), w1))"
proof -
  have never: "wait_for_task c node upid timeout w = Some (Inr st', w')
      \<longrightarrow> (\<exists>s. subscript st' ''status'' = Inr s \<and> s \<noteq> PStr ''running'')"
    unfolding wait_for_task_def by (blast dest: wait_loop_never_running)
  have spacing: "polls_world c node upid (Suc i) w = sleep 2 (snd (poll c node upid w i))"
    by (rule polls_world_Suc)
  have two: "clock (sleep 2 w) = clock w + 2000000"
    by (simp add: sleep_def)
  have returns: "(\<forall>i<n. running_poll c node upid timeout w i)
        \<and> poll c node upid w n = (Inr st, w1) \<and> subscript st ''status'' = Inr s \<and> s \<noteq> PStr ''running''
      \<longrightarrow> wait_for_task c node upid timeout w = Some (Inr st, w1)"
  proof
    assume a: "(\<forall>i<n. running_poll c node upid timeout w i)
        \<and> poll c node upid w n = (Inr st, w1) \<and> subscript st ''status'' = Inr s \<and> s \<noteq> PStr ''running''"
    then have f: "get_task_status c node upid (polls_world c node upid n w) = (Inr st, w1)"
      by (simp add: poll_def)
    from a have skip: "wait_loop c node upid timeout (clock w) w
       = wait_loop c node upid timeout (clock w) (polls_world c node upid n w)"
      by (blast intro: running_polls_skip)
    from a have s: "subscript st ''status'' = Inr s" and ne: "s \<noteq> PStr ''running''" by simp_all
    show "wait_for_task c node upid timeout w = Some (Inr st, w1)"
      unfolding wait_for_task_def skip by (rule wait_loop_return [OF f s ne])
  qed
  have times_out: "(\<forall>i<n. running_poll c node upid timeout w i)
        \<and> poll c node upid w n = (Inr st, w1) \<and> subscript st ''status'' = Inr (PStr ''running'')
        \<and> 0 \<le> clock w1 - clock w \<and> clock w1 - clock w < 86400000000
        \<and> timeout < (clock w1 - clock w) div 1000000
      \<longrightarrow> wait_for_task c node upid timeout w =
            Some (Inl (ProxmoxError ProxmoxMCPException
                         (''Task '' @ py_str upid @ '' timed out after '' @ str_int timeout @ '' seconds'')
                         ''PROXMOX_MCP_ERROR'' [] []), w1)"
  proof
    assume a: "(\<forall>i<n. running_poll c node upid timeout w i)
        \<and> poll c node upid w n = (Inr st, w1) \<and> subscript st ''status'' = Inr (PStr ''running'')
        \<and> 0 \<le> clock w1 - clock w \<and> clock w1 - clock w < 86400000000
        \<and> timeout < (clock w1 - clock w) div 1000000"
    then have f: "get_task_status c node upid (polls_world c node upid n w) = (Inr st, w1)"
      by (simp add: poll_def)
    from a have skip: "wait_loop c node upid timeout (clock w) w
       = wait_loop c node upid timeout (clock w) (polls_world c node upid n w)"
      by (blast intro: running_polls_skip)
    from a have run: "subscript st ''status'' = Inr (PStr ''running'')" by simp
    from a have late: "timeout < td_seconds (clock w1 - clock w)"
      by (simp add: td_seconds_within_day)
    have "wait_for_task c node upid timeout w =
        Some (Inl (ProxmoxMCPException_init (timed_out_message upid timeout) None None), w1)"
      unfolding wait_for_task_def skip by (rule wait_loop_timeout [OF f run late])
    then show "wait_for_task c node upid timeout w =
            Some (Inl (ProxmoxError ProxmoxMCPException
                         (''Task '' @ py_str upid @ '' timed out after '' @ str_int timeout @ '' seconds'')
                         ''PROXMOX_MCP_ERROR'' [] []), w1)"
      by (simp add: ProxmoxMCPException_init_def timed_out_message_def or_str_def or_dict_def)
  qed
  from never spacing two returns times_out show ?thesis by blast
qed

lemma all_less_3: "(\<forall>i<3. P (i::nat)) = (P 0 \<and> P 1 \<and> P 2)"
  by (auto simp: numeral_3_eq_3 numeral_2_eq_2 less_Suc_eq)

lemma task_remote_polls:
  "running_poll (connected (task_remote 3 100000)) (PStr ''pve1'') (PStr ''UPID:123'') 300 world0 0
   \<and> running_poll (connected (task_remote 3 100000)) (PStr ''pve1'') (PStr ''UPID:123'') 300 world0 1
   \<and> running_poll (connected (task_remote 3 100000)) (PStr ''pve1'') (PStr ''UPID:123'') 300 world0 2"
  by code_simp

lemma task_remote_last_poll:
  "poll (connected (task_remote 3 100000)) (PStr ''pve1'') (PStr ''UPID:123'') world0 3
   = (Inr (PDict [(''status'', PStr ''stopped''), (''exitstatus'', PStr ''OK'')]),
      \<lparr>clock = 6400000,
         trace = [Call status_call, Sleep 2, Call status_call, Sleep 2, Call status_call, Sleep 2,
                  Call status_call]\<rparr>)"
  by code_simp

lemma always_running_first_poll:
  "running_poll (connected (always_running 600000)) (PStr ''pve1'') (PStr ''UPID:123'') 1 world0 0"
  by code_simp

lemma always_running_second_poll:
  "poll (connected (always_running 600000)) (PStr ''pve1'') (PStr ''UPID:123'') world0 1
   = (Inr (PDict [(''status'', PStr ''running'')]),
      \<lparr>clock = 3200000, trace = [Call status_call, Sleep 2, Call status_call]\<rparr>)"
  by code_simp

theorem wait_for_task_spec_witness:
  "wait_for_task (connected (task_remote 3 100000)) (PStr ''pve1'') (PStr ''UPID:123'') 300 world0
     = Some (Inr (PDict [(''status'', PStr ''stopped''), (''exitstatus'', PStr ''OK'')]),
             \<lparr>clock = 6400000,
                trace = [Call status_call, Sleep 2, Call status_call, Sleep 2, Call status_call, Sleep 2,
                         Call status_call]\<rparr>)
   \<and> wait_for_task (connected (always_running 600000)) (PStr ''pve1'') (PStr ''UPID:123'') 1 world0
     = Some (Inl (ProxmoxError ProxmoxMCPException ''Task UPID:123 timed out after 1 seconds''
                    ''PROXMOX_MCP_ERROR'' [] []),
             \<lparr>clock = 3200000, trace = [Call status_call, Sleep 2, Call status_call]\<rparr>)"
proof -
  have a: "wait_for_task (connected (task_remote 3 100000)) (PStr ''pve1'') (PStr ''UPID:123'') 300 world0
     = Some (Inr (PDict [(''status'', PStr ''stopped''), (''exitstatus'', PStr ''OK'')]),
             \<lparr>clock = 6400000,
                trace = [Call status_call, Sleep 2, Call status_call, Sleep 2, Call status_call, Sleep 2,
                         Call status_call]\<rparr>)"
    using wait_for_task_spec [where c = "connected (task_remote 3 100000)" and node = "PStr ''pve1''"
        and upid = "PStr ''UPID:123''" and timeout = 300 and w = world0 and n = 3
        and st = "PDict [(''status'', PStr ''stopped''), (''exitstatus'', PStr ''OK'')]"
        and s = "PStr ''stopped''"
        and ?w1.0 = "\<lparr>clock = 6400000,
                trace = [Call status_call, Sleep 2, Call status_call, Sleep 2, Call status_call, Sleep 2,
                         Call status_call]\<rparr>"]
      task_remote_polls task_remote_last_poll
    by (simp add: all_less_3 subscript_def)
  have b: "wait_for_task (connected (always_running 600000)) (PStr ''pve1'') (PStr ''UPID:123'') 1 world0
     = Some (Inl (ProxmoxError ProxmoxMCPException ''Task UPID:123 timed out after 1 seconds''
                    ''PROXMOX_MCP_ERROR'' [] []),
             \<lparr>clock = 3200000, trace = [Call status_call, Sleep 2, Call status_call]\<rparr>)"
    using wait_for_task_spec [where c = "connected (always_running 600000)" and node = "PStr ''pve1''"
        and upid = "PStr ''UPID:123''" and timeout = 1 and w = world0 and n = 1
        and st = "PDict [(''status'', PStr ''running'')]"
        and ?w1.0 = "\<lparr>clock = 3200000, trace = [Call status_call, Sleep 2, Call status_call]\<rparr>"]
      always_running_first_poll always_running_second_poll
    by (simp add: subscript_def world0_def py_str_def str_int_def str_nat.simps)
  from a b show ?thesis by blast
qed

text \<open>
  C3, the claim as stated, fails on the class of the error: with a task that stays
  running and a timeout of one second, the error raised is not a
  \<^verbatim>\<open>ProxmoxTimeoutException\<close> but an instance of the base class, with no details.
\<close>

theorem wait_for_task_error_class_counterexample:
  "wait_for_task (connected (always_running 600000)) (PStr ''pve1'') (PStr ''UPID:123'') 1 world0
     = Some (Inl (ProxmoxError ProxmoxMCPException ''Task UPID:123 timed out after 1 seconds''
                    ''PROXMOX_MCP_ERROR'' [] []),
             \<lparr>clock = 3200000, trace = [Call status_call, Sleep 2, Call status_call]\<rparr>)
   \<and> \<not> raises_class
        (fst (the (wait_for_task (connected (always_running 600000)) (PStr ''pve1'') (PStr ''UPID:123'') 1 world0)))
        ProxmoxTimeoutException
   \<and> fst (the (wait_for_task (connected (always_running 600000)) (PStr ''pve1'') (PStr ''UPID:123'') 1 world0))
     \<noteq> Inl (ProxmoxTimeoutException_init ''Task UPID:123 timed out after 1 seconds'' (Some 1) None)"
  by code_simp

text \<open>
  The elapsed time is read as \<^verbatim>\<open>timedelta.seconds\<close>, which stays below 86400. With a
  timeout of 86399 seconds or more the comparison never holds, and the wait for a task
  that stays running does not end.
\<close>

lemma always_running_status:
  "get_task_status (connected (always_running took)) node upid w =
     (Inr (PDict [(''status'', PStr ''running'')]),
      w\<lparr>clock := clock w + took,
        trace := trace w @ [Call (ApiCall [PStr ''nodes'', node, PStr ''tasks'', upid, PStr ''status''] ''get'' [])]\<rparr>)"
proof -
  have up: "[0..<nat 3] = [0, 1, 2]" by (simp add: upt_rec)
  show ?thesis
    unfolding get_task_status_def execute_with_retry_def up
    by (simp add: api_request_def connected_def always_running_def)
qed

lemma wait_for_task_never_ends:
  assumes big: "86399 \<le> timeout"
  shows "wait_for_task (connected (always_running took)) node upid timeout w = None"
proof (rule ccontr)
  assume "wait_for_task (connected (always_running took)) node upid timeout w \<noteq> None"
  then obtain y where ret: "wait_loop (connected (always_running took)) node upid timeout (clock w) w = Some y"
    by (auto simp: wait_for_task_def)
  define P :: "client \<Rightarrow> pyval \<Rightarrow> pyval \<Rightarrow> int \<Rightarrow> int \<Rightarrow> world \<Rightarrow> (exn + pyval) \<times> world \<Rightarrow> bool"
    where "P = (\<lambda>c node upid t start w y. \<not> (c = connected (always_running took) \<and> 86399 \<le> t))"
  have "P (connected (always_running took)) node upid timeout (clock w) w y"
  proof (rule wait_loop.raw_induct [where P = P, OF _ ret])
    fix wl c node upid timeout start_time w ca
    assume ih: "\<And>node upid timeout start_time w b y.
        wl node upid timeout start_time w b = Some y \<Longrightarrow> P node upid timeout start_time w b y"
      and body: "(case get_task_status c node upid w of
         (Inl e, w1) \<Rightarrow> Some (Inl e, w1)
       | (Inr status, w1) \<Rightarrow>
          (case subscript status ''status'' of
             Inl e \<Rightarrow> Some (Inl e, w1)
           | Inr s \<Rightarrow>
               if s \<noteq> PStr ''running'' then Some (Inr status, w1)
               else if td_seconds (clock w1 - start_time) > timeout
               then Some (Inl (ProxmoxMCPException_init (timed_out_message upid timeout) None None), w1)
               else wl c node upid timeout start_time (sleep 2 w1))) = Some ca"
    show "P c node upid timeout start_time w ca"
    proof (cases "c = connected (always_running took) \<and> 86399 \<le> timeout")
      case False
      then show ?thesis by (simp add: P_def)
    next
      case True
      then have c: "c = connected (always_running took)" and t: "86399 \<le> timeout" by simp_all
      from td_seconds_bound [of "clock w + took - start_time"] t
      have nt: "\<not> timeout < td_seconds (clock w + took - start_time)" by simp
      from body have "wl c node upid timeout start_time
          (sleep 2 (w\<lparr>clock := clock w + took,
             trace := trace w @ [Call (ApiCall [PStr ''nodes'', node, PStr ''tasks'', upid, PStr ''status''] ''get'' [])]\<rparr>))
          = Some ca"
        unfolding c always_running_status using nt by (simp add: subscript_def)
      from ih [OF this] show ?thesis by (simp add: P_def)
    qed
  qed
  with big show False by (simp add: P_def)
qed

section \<open>Properties of connection validation\<close>

lemma validate_connection_unset: "api c = None \<Longrightarrow> validate_connection c w = (False, c, w)"
  by (simp add: validate_connection_def)

lemma validate_connection_fresh:
  "api c = Some r \<Longrightarrow> last_connection_check c = Some t \<Longrightarrow> 0 \<le> clock w - t
     \<Longrightarrow> clock w - t < 300000000 \<Longrightarrow> validate_connection c w = (True, c, w)"
proof -
  assume c: "api c = Some r" and t: "last_connection_check c = Some t"
    and lo: "0 \<le> clock w - t" and hi: "clock w - t < 300000000"
  from hi have "clock w - t \<le> 299999999" by simp
  then have "(clock w - t) div 1000000 \<le> 299999999 div 1000000" by (rule zdiv_mono1) simp
  then have "(clock w - t) div 1000000 < 300" by simp
  with lo hi have "td_seconds (clock w - t) < 300" by (simp add: td_seconds_within_day)
  with c t show ?thesis by (simp add: validate_connection_def)
qed

lemma validate_connection_stale:
  "api c = Some r \<Longrightarrow> last_connection_check c = Some t \<Longrightarrow> 300000000 \<le> clock w - t
     \<Longrightarrow> clock w - t < 86400000000
     \<Longrightarrow> ncalls w < ncalls (snd (snd (validate_connection c w)))"
proof -
  assume c: "api c = Some r" and t: "last_connection_check c = Some t"
    and lo: "300000000 \<le> clock w - t" and hi: "clock w - t < 86400000000"
  let ?op = "api_request c (ApiCall [PStr ''version''] ''get'' [])"
  from lo have "300000000 div 1000000 \<le> (clock w - t) div 1000000" by (rule zdiv_mono1) simp
  then have "300 \<le> (clock w - t) div 1000000" by simp
  with lo hi have stale: "\<not> td_seconds (clock w - t) < 300"
    by (simp add: td_seconds_within_day)
  obtain res w1 where f: "?op w = (res, w1)" by (cases "?op w")
  from api_request_counts [OF c, of "ApiCall [PStr ''version''] ''get'' []" w] f
  have n1: "ncalls w1 = Suc (ncalls w)" by simp
  have cnt: "\<forall>w. ncalls (snd (?op w)) = Suc (ncalls w)" using c by (simp add: api_request_counts)
  have grows: "\<And>as le w. ncalls w \<le> ncalls (snd (retry_loop ?op 3 1 as le w))"
  proof -
    fix as le w
    show "ncalls w \<le> ncalls (snd (retry_loop ?op 3 1 as le w))"
    proof (induction as arbitrary: le w)
      case Nil
      show ?case by simp
    next
      case (Cons a as)
      obtain r2 w2 where g: "?op w = (r2, w2)" by (cases "?op w")
      from cnt g have n2: "ncalls w2 = Suc (ncalls w)" by (metis snd_conv)
      show ?case
      proof (cases r2)
        case (Inr v)
        with g n2 show ?thesis by simp
      next
        case (Inl e)
        have "ncalls (if int a < 3 - 1 then sleep (1 * 2 ^ a) w2 else w2) = Suc (ncalls w)"
          by (simp add: n2 ncalls_sleep)
        with Cons.IH [of "if int a < 3 - 1 then sleep (1 * 2 ^ a) w2 else w2" "Some e"] g Inl
        show ?thesis by simp
      qed
    qed
  qed
  have first: "ncalls w < ncalls (snd (execute_with_retry ?op 3 1 w))"
  proof (cases res)
    case (Inr v)
    with f n1 show ?thesis by (simp add: execute_with_retry_def upt_rec)
  next
    case (Inl e)
    have "ncalls (sleep (1 * 2 ^ 0) w1) \<le> ncalls (snd (retry_loop ?op 3 1 [1, 2] (Some e) (sleep (1 * 2 ^ 0) w1)))"
      by (rule grows)
    moreover have "execute_with_retry ?op 3 1 w = retry_loop ?op 3 1 [1, 2] (Some e) (sleep (1 * 2 ^ 0) w1)"
    proof -
      have "[0..<nat 3] = [0, 1, 2]" by (simp add: upt_rec)
      then show ?thesis using f Inl by (simp add: execute_with_retry_def)
    qed
    ultimately show ?thesis by (simp add: ncalls_sleep n1)
  qed
  obtain res' w' where e: "execute_with_retry ?op 3 1 w = (res', w')" by (cases "execute_with_retry ?op 3 1 w")
  with first have "ncalls w < ncalls w'" by simp
  with c t stale e show ?thesis
    by (cases res') (simp_all add: validate_connection_def)
qed

text \<open>
  C4 at the failing input: the connection is set, the last successful check is exactly
  one day old, and \<open>validate_connection\<close> answers from the cache without any probe.
\<close>

theorem validate_connection_day_old_check:
  "validate_connection \<lparr>api = Some (flaky_remote 0), last_connection_check = Some 0\<rparr>
       \<lparr>clock = 86400000000, trace = []\<rparr>
     = (True, \<lparr>api = Some (flaky_remote 0), last_connection_check = Some 0\<rparr>,
        \<lparr>clock = 86400000000, trace = []\<rparr>)"
  by (simp add: validate_connection_def td_seconds_def)


section \<open>Properties of the tool dispatcher\<close>

lemma execute_tool_unknown:
  assumes "name \<notin> fst ` set tools"
  shows "execute_tool services c name arguments w =
      (Inl (ProxmoxMCPException_init (''Unknown tool: '' @ name) None None), w)"
proof -
  from assms have
    "name \<noteq> ''list_vms''" "name \<noteq> ''get_vm_details''" "name \<noteq> ''create_vm''" "name \<noteq> ''start_vm''"
    "name \<noteq> ''stop_vm''" "name \<noteq> ''delete_vm''" "name \<noteq> ''clone_vm''" "name \<noteq> ''migrate_vm''"
    "name \<noteq> ''list_containers''" "name \<noteq> ''get_container_details''" "name \<noteq> ''create_container''"
    "name \<noteq> ''start_container''" "name \<noteq> ''stop_container''" "name \<noteq> ''delete_container''"
    "name \<noteq> ''clone_container''" "name \<noteq> ''get_cluster_status''" "name \<noteq> ''get_cluster_resources''"
    "name \<noteq> ''get_ha_resources''" "name \<noteq> ''list_storages''" "name \<noteq> ''get_storage_status''"
    "name \<noteq> ''get_storage_content''" "name \<noteq> ''get_network_config''" "name \<noteq> ''create_bridge''"
    "name \<noteq> ''list_nodes''" "name \<noteq> ''get_node_status''" "name \<noteq> ''get_node_services''"
    "name \<noteq> ''create_backup''" "name \<noteq> ''list_backups''" "name \<noteq> ''restore_backup''"
    by (auto simp: tools_def)
  then show ?thesis unfolding execute_tool_def by (simp only: if_False)
qed

lemma execute_tool_start_vm:
  "execute_tool services c ''start_vm'' arguments w =
     (case map_of arguments ''node'' of
          None \<Rightarrow> (Inl (KeyError ''node''), w)
        | Some node \<Rightarrow>
            (case map_of arguments ''vmid'' of
               None \<Rightarrow> (Inl (KeyError ''vmid''), w)
             | Some vmid \<Rightarrow> VMService_start_vm c node vmid w))"
  by (simp add: execute_tool_def)

lemma execute_tool_delete_vm:
  "execute_tool services c ''delete_vm'' arguments w =
     invoke (required arguments [''node'', ''vmid'']) [dict_get arguments ''purge'' (PBool False)]
         (services ''vm_service.delete_vm'') w"
  by (simp add: execute_tool_def)

lemma api_request_trace:
  "api c = Some r \<Longrightarrow> trace (snd (api_request c call w)) = trace w @ [Call call]"
  by (simp add: api_request_def split: prod.splits)

lemma api_request_trace_mono: "set (trace w) \<subseteq> set (trace (snd (api_request c call w)))"
  by (auto simp: api_request_def split: option.splits prod.splits)

lemma retry_loop_trace_mono:
  "set (trace w) \<subseteq> set (trace (snd (retry_loop (api_request c call) mr d as le w)))"
proof (induction as arbitrary: le w)
  case Nil
  show ?case by simp
next
  case (Cons a as)
  obtain r w1 where f: "api_request c call w = (r, w1)" by (cases "api_request c call w")
  from api_request_trace_mono [of w c call] f have m1: "set (trace w) \<subseteq> set (trace w1)" by simp
  show ?case
  proof (cases r)
    case (Inr v)
    with f m1 show ?thesis by simp
  next
    case (Inl e)
    let ?w2 = "if int a < mr - 1 then sleep (d * 2 ^ a) w1 else w1"
    have m2: "set (trace w1) \<subseteq> set (trace ?w2)" by (auto simp: sleep_def)
    from Cons.IH [of ?w2 "Some e"] m1 m2 f Inl show ?thesis by auto
  qed
qed

lemma execute_with_retry_issues_call:
  assumes c: "api c = Some r"
  shows "Call call \<in> set (trace (snd (execute_with_retry (api_request c call) 3 d w)))"
proof -
  obtain res w1 where f: "api_request c call w = (res, w1)" by (cases "api_request c call w")
  from api_request_trace [OF c, of call w] f have t1: "Call call \<in> set (trace w1)" by simp
  have up: "[0..<nat 3] = [0, 1, 2]" by (simp add: upt_rec)
  show ?thesis
  proof (cases res)
    case (Inr v)
    with f t1 up show ?thesis by (simp add: execute_with_retry_def)
  next
    case (Inl e)
    let ?w2 = "sleep (d * 2 ^ 0) w1"
    from t1 have "Call call \<in> set (trace ?w2)" by (simp add: sleep_def)
    with retry_loop_trace_mono [of ?w2 c call 3 d "[1, 2]" "Some e"]
    have "Call call \<in> set (trace (snd (retry_loop (api_request c call) 3 d [1, 2] (Some e) ?w2)))" by blast
    with f Inl up show ?thesis by (simp add: execute_with_retry_def)
  qed
qed

lemma start_vm_first_try:
  assumes c: "api c = Some r"
    and ok: "r w (ApiCall [PStr ''nodes'', node, PStr ''qemu'', vmid, PStr ''status'', PStr ''start''] ''post'' [])
               = (Inr task_id, took)"
  shows "VMService_start_vm c node vmid w =
      (Inr (PDict [(''vmid'', vmid), (''node'', node), (''task_id'', task_id),
                   (''action'', PStr ''start''), (''status'', PStr ''started'')]),
       w\<lparr>clock := clock w + took,
         trace := trace w @ [Call (ApiCall [PStr ''nodes'', node, PStr ''qemu'', vmid, PStr ''status'', PStr ''start''] ''post'' [])]\<rparr>)"
proof -
  let ?call = "ApiCall [PStr ''nodes'', node, PStr ''qemu'', vmid, PStr ''status'', PStr ''start''] ''post'' []"
  have up: "[0..<nat 3] = [0, 1, 2]" by (simp add: upt_rec)
  have one: "api_request c ?call w = (Inr task_id, w\<lparr>clock := clock w + took, trace := trace w @ [Call ?call]\<rparr>)"
    by (simp add: api_request_def c ok)
  have "execute_with_retry (api_request c ?call) 3 1 w
      = (Inr task_id, w\<lparr>clock := clock w + took, trace := trace w @ [Call ?call]\<rparr>)"
    unfolding execute_with_retry_def up by (simp add: one)
  then show ?thesis
    by (simp add: VMService_start_vm_def client_start_vm_def)
qed

lemma snd_handle_call_tool:
  "snd (handle_call_tool services c name arguments w) = snd (execute_tool services c name arguments w)"
  by (simp add: handle_call_tool_def split: prod.splits sum.splits)

lemma snd_VMService_start_vm:
  "snd (VMService_start_vm c node vmid w) = snd (client_start_vm c node vmid w)"
  by (simp add: VMService_start_vm_def split: prod.splits sum.splits)

text \<open>
  C1 (as amended). The dispatcher takes no caller role and consults no permission.
  Called for \<^verbatim>\<open>start_vm\<close> with a node and a VM id on a connected client, it always
  invokes the handler, which issues the remote start call; called for \<^verbatim>\<open>delete_vm\<close>,
  it always invokes the delete handler with the arguments given. The permission check
  that would deny these operations to a viewer exists in \<open>check_permission\<close> only.
\<close>

theorem dispatch_without_permission_check:
  "(api c = Some r \<and> map_of arguments ''node'' = Some node \<and> map_of arguments ''vmid'' = Some vmid
      \<longrightarrow> Call (ApiCall [PStr ''nodes'', node, PStr ''qemu'', vmid, PStr ''status'', PStr ''start''] ''post'' [])
            \<in> set (trace (snd (handle_call_tool services c ''start_vm'' arguments w))))
   \<and> (map_of arguments ''node'' = Some node \<and> map_of arguments ''vmid'' = Some vmid
      \<longrightarrow> execute_tool services c ''delete_vm'' arguments w
          = services ''vm_service.delete_vm'' [node, vmid, dict_get arguments ''purge'' (PBool False)] w)
   \<and> (enable_rbac s
      \<longrightarrow> \<not> check_permission s ''viewer'' ''vm:start'' \<and> \<not> check_permission s ''viewer'' ''vm:delete'')"
proof -
  have start: "api c = Some r \<and> map_of arguments ''node'' = Some node \<and> map_of arguments ''vmid'' = Some vmid
      \<longrightarrow> Call (ApiCall [PStr ''nodes'', node, PStr ''qemu'', vmid, PStr ''status'', PStr ''start''] ''post'' [])
            \<in> set (trace (snd (handle_call_tool services c ''start_vm'' arguments w)))"
  proof
    assume a: "api c = Some r \<and> map_of arguments ''node'' = Some node \<and> map_of arguments ''vmid'' = Some vmid"
    then have "snd (handle_call_tool services c ''start_vm'' arguments w) = snd (client_start_vm c node vmid w)"
      by (simp add: snd_handle_call_tool execute_tool_start_vm snd_VMService_start_vm)
    moreover from a have "api c = Some r" by simp
    ultimately show "Call (ApiCall [PStr ''nodes'', node, PStr ''qemu'', vmid, PStr ''status'', PStr ''start''] ''post'' [])
            \<in> set (trace (snd (handle_call_tool services c ''start_vm'' arguments w)))"
      by (simp add: client_start_vm_def execute_with_retry_issues_call)
  qed
  have delete: "map_of arguments ''node'' = Some node \<and> map_of arguments ''vmid'' = Some vmid
      \<longrightarrow> execute_tool services c ''delete_vm'' arguments w
          = services ''vm_service.delete_vm'' [node, vmid, dict_get arguments ''purge'' (PBool False)] w"
    by (simp add: execute_tool_delete_vm invoke_def)
  have denied: "enable_rbac s
      \<longrightarrow> \<not> check_permission s ''viewer'' ''vm:start'' \<and> \<not> check_permission s ''viewer'' ''vm:delete''"
    by (simp add: check_permission_enabled viewer_permissions)
  from start delete denied show ?thesis by blast
qed

theorem dispatch_without_permission_check_witness:
  "Call start_call
     \<in> set (trace (snd (handle_call_tool no_services (connected start_vm_remote) ''start_vm''
                          start_vm_arguments world0)))
   \<and> execute_tool no_services (connected start_vm_remote) ''delete_vm'' start_vm_arguments world0
     = (Inl (RemoteError ''service unavailable''), world0)
   \<and> \<not> check_permission \<lparr>enable_rbac = True\<rparr> ''viewer'' ''vm:start''"
  using dispatch_without_permission_check [where c = "connected start_vm_remote" and r = start_vm_remote
      and arguments = start_vm_arguments and node = "PStr ''pve1''" and vmid = "PInt 101"
      and services = no_services and w = world0 and s = "\<lparr>enable_rbac = True\<rparr>"]
  by (simp add: connected_def start_vm_arguments_def start_call_def no_services_def)

text \<open>
  C1, the claim as stated, fails: a viewer lacks \<^verbatim>\<open>vm:start\<close>, yet a call of
  \<^verbatim>\<open>start_vm\<close>, which carries no role at all, reaches the remote endpoint.
\<close>

theorem viewer_start_vm_counterexample:
  "\<not> check_permission \<lparr>enable_rbac = True\<rparr> ''viewer'' ''vm:start''
   \<and> fst (handle_call_tool no_services (connected start_vm_remote) ''start_vm'' start_vm_arguments world0)
      = [TextContent ''text''
          (''{'' @ quoted ''vmid'' @ '': 101, '' @ quoted ''node'' @ '': '' @ quoted ''pve1'' @ '', ''
           @ quoted ''task_id'' @ '': '' @ quoted ''UPID:123'' @ '', '' @ quoted ''action'' @ '': ''
           @ quoted ''start'' @ '', '' @ quoted ''status'' @ '': '' @ quoted ''started'' @ ''}'')]
   \<and> snd (handle_call_tool no_services (connected start_vm_remote) ''start_vm'' start_vm_arguments world0)
      = \<lparr>clock = 50000, trace = [Call start_call]\<rparr>
   \<and> ncalls (snd (handle_call_tool no_services (connected start_vm_remote) ''start_vm''
                     start_vm_arguments world0)) = 1"
  by code_simp

text \<open>
  C8 (as amended). For a name that is not among the announced tools, \<open>execute_tool\<close>
  raises the base \<^verbatim>\<open>ProxmoxMCPException\<close> with the message \<^verbatim>\<open>Unknown tool: <name>\<close>
  without touching the world, and \<open>handle_call_tool\<close> answers with one text content,
  \<^verbatim>\<open>Tool execution failed: Unknown tool: <name>\<close>. Whatever exception \<open>execute_tool\<close>
  raises, \<open>handle_call_tool\<close> returns one text content made of that prefix and the text
  of the exception; a result is returned as its text.
\<close>

theorem handle_call_tool_errors:
  "(name \<notin> fst ` set tools
      \<longrightarrow> execute_tool services c name arguments w
            = (Inl (ProxmoxError ProxmoxMCPException (''Unknown tool: '' @ name) ''PROXMOX_MCP_ERROR'' [] []), w)
          \<and> handle_call_tool services c name arguments w
            = ([TextContent ''text'' (''Tool execution failed: Unknown tool: '' @ name)], w))
   \<and> (execute_tool services c name arguments w = (Inl e, w1)
      \<longrightarrow> handle_call_tool services c name arguments w
            = ([TextContent ''text'' (''Tool execution failed: '' @ str_exn e)], w1))
   \<and> (execute_tool services c name arguments w = (Inr result, w1)
      \<longrightarrow> handle_call_tool services c name arguments w = ([TextContent ''text'' (py_str result)], w1))"
proof -
  have unknown: "name \<notin> fst ` set tools
      \<longrightarrow> execute_tool services c name arguments w
            = (Inl (ProxmoxError ProxmoxMCPException (''Unknown tool: '' @ name) ''PROXMOX_MCP_ERROR'' [] []), w)
          \<and> handle_call_tool services c name arguments w
            = ([TextContent ''text'' (''Tool execution failed: Unknown tool: '' @ name)], w)"
  proof
    assume "name \<notin> fst ` set tools"
    then have u: "execute_tool services c name arguments w =
        (Inl (ProxmoxMCPException_init (''Unknown tool: '' @ name) None None), w)"
      by (rule execute_tool_unknown)
    show "execute_tool services c name arguments w
            = (Inl (ProxmoxError ProxmoxMCPException (''Unknown tool: '' @ name) ''PROXMOX_MCP_ERROR'' [] []), w)
          \<and> handle_call_tool services c name arguments w
            = ([TextContent ''text'' (''Tool execution failed: Unknown tool: '' @ name)], w)"
      by (simp add: handle_call_tool_def u ProxmoxMCPException_init_def or_str_def or_dict_def)
  qed
  have caught: "execute_tool services c name arguments w = (Inl e, w1)
      \<longrightarrow> handle_call_tool services c name arguments w
            = ([TextContent ''text'' (''Tool execution failed: '' @ str_exn e)], w1)"
    by (simp add: handle_call_tool_def)
  have returned: "execute_tool services c name arguments w = (Inr result, w1)
      \<longrightarrow> handle_call_tool services c name arguments w = ([TextContent ''text'' (py_str result)], w1)"
    by (simp add: handle_call_tool_def)
  from unknown caught returned show ?thesis by blast
qed

lemma no_such_tool: "''no_such_tool'' \<notin> fst ` set tools"
  by (simp add: tools_def)

lemma start_vm_without_arguments:
  "execute_tool no_services (connected start_vm_remote) ''start_vm'' [] world0 = (Inl (KeyError ''node''), world0)"
  by (simp add: execute_tool_start_vm)

lemma str_exn_KeyError_node: "str_exn (KeyError ''node'') = quoted ''node''"
  by code_simp

theorem handle_call_tool_errors_witness:
  "handle_call_tool no_services (connected start_vm_remote) ''no_such_tool'' [] world0
     = ([TextContent ''text'' ''Tool execution failed: Unknown tool: no_such_tool''], world0)
   \<and> handle_call_tool no_services (connected start_vm_remote) ''start_vm'' [] world0
     = ([TextContent ''text'' (''Tool execution failed: '' @ quoted ''node'')], world0)"
proof -
  have a: "handle_call_tool no_services (connected start_vm_remote) ''no_such_tool'' [] world0
     = ([TextContent ''text'' ''Tool execution failed: Unknown tool: no_such_tool''], world0)"
    using handle_call_tool_errors [where name = "''no_such_tool''" and services = no_services
        and c = "connected start_vm_remote" and arguments = "[]" and w = world0
        and e = "KeyError ''node''" and ?w1.0 = world0 and result = PNone]
      no_such_tool
    by simp
  have b: "handle_call_tool no_services (connected start_vm_remote) ''start_vm'' [] world0
     = ([TextContent ''text'' (''Tool execution failed: '' @ quoted ''node'')], world0)"
    using handle_call_tool_errors [where name = "''start_vm''" and services = no_services
        and c = "connected start_vm_remote" and arguments = "[]" and w = world0
        and e = "KeyError ''node''" and ?w1.0 = world0 and result = PNone]
      start_vm_without_arguments
    unfolding str_exn_KeyError_node by simp
  from a b show ?thesis by blast
qed

text \<open>
  C8, the claim as stated, fails: the answer to an unknown tool name is a plain text with
  no success flag and no error code, and the exception behind it carries the generic
  code \<^verbatim>\<open>PROXMOX_MCP_ERROR\<close>.
\<close>

theorem unknown_tool_counterexample:
  "handle_call_tool no_services (connected start_vm_remote) ''no_such_tool'' [] world0
     = ([TextContent ''text'' ''Tool execution failed: Unknown tool: no_such_tool''], world0)
   \<and> execute_tool no_services (connected start_vm_remote) ''no_such_tool'' [] world0
     = (Inl (ProxmoxError ProxmoxMCPException ''Unknown tool: no_such_tool'' ''PROXMOX_MCP_ERROR'' [] []), world0)
   \<and> error_code (projl (fst (execute_tool no_services (connected start_vm_remote) ''no_such_tool'' [] world0)))
       \<noteq> ''UnknownOperation''"
  by code_simp

text \<open>
  C9 (as amended). On a connected client whose remote endpoint accepts the start call at
  the first attempt and returns a task handle, \<^verbatim>\<open>start_vm\<close> with a node and a VM id
  answers with the text of the dictionary of VM id, node, task handle, the action
  \<^verbatim>\<open>start\<close> and the status \<^verbatim>\<open>started\<close>, after exactly that one remote call: the
  handler returns at once and does not poll the task.
\<close>

theorem start_vm_end_to_end:
  "api c = Some r \<Longrightarrow> map_of arguments ''node'' = Some node \<Longrightarrow> map_of arguments ''vmid'' = Some vmid
   \<Longrightarrow> r w (ApiCall [PStr ''nodes'', node, PStr ''qemu'', vmid, PStr ''status'', PStr ''start''] ''post'' [])
         = (Inr task_id, took)
   \<Longrightarrow> handle_call_tool services c ''start_vm'' arguments w =
        ([TextContent ''text''
            (py_str (PDict [(''vmid'', vmid), (''node'', node), (''task_id'', task_id),
                            (''action'', PStr ''start''), (''status'', PStr ''started'')]))],
         w\<lparr>clock := clock w + took,
           trace := trace w @ [Call (ApiCall [PStr ''nodes'', node, PStr ''qemu'', vmid, PStr ''status'',
                                              PStr ''start''] ''post'' [])]\<rparr>)"
  by (simp add: handle_call_tool_def execute_tool_start_vm start_vm_first_try)

lemma start_vm_remote_accepts:
  "start_vm_remote world0 (ApiCall [PStr ''nodes'', PStr ''pve1'', PStr ''qemu'', PInt 101, PStr ''status'',
                                     PStr ''start''] ''post'' []) = (Inr (PStr ''UPID:123''), 50000)"
  by (simp add: start_vm_remote_def)

lemma started_text:
  "py_str (PDict [(''vmid'', PInt 101), (''node'', PStr ''pve1''), (''task_id'', PStr ''UPID:123''),
                  (''action'', PStr ''start''), (''status'', PStr ''started'')])
   = ''{'' @ quoted ''vmid'' @ '': 101, '' @ quoted ''node'' @ '': '' @ quoted ''pve1'' @ '', ''
     @ quoted ''task_id'' @ '': '' @ quoted ''UPID:123'' @ '', '' @ quoted ''action'' @ '': ''
     @ quoted ''start'' @ '', '' @ quoted ''status'' @ '': '' @ quoted ''started'' @ ''}''"
  by code_simp

theorem start_vm_end_to_end_witness:
  "handle_call_tool no_services (connected start_vm_remote) ''start_vm'' start_vm_arguments world0
     = ([TextContent ''text''
          (''{'' @ quoted ''vmid'' @ '': 101, '' @ quoted ''node'' @ '': '' @ quoted ''pve1'' @ '', ''
           @ quoted ''task_id'' @ '': '' @ quoted ''UPID:123'' @ '', '' @ quoted ''action'' @ '': ''
           @ quoted ''start'' @ '', '' @ quoted ''status'' @ '': '' @ quoted ''started'' @ ''}'')],
        \<lparr>clock = 50000, trace = [Call start_call]\<rparr>)"
proof -
  have c: "api (connected start_vm_remote) = Some start_vm_remote" by (simp add: connected_def)
  have n: "map_of start_vm_arguments ''node'' = Some (PStr ''pve1'')" by (simp add: start_vm_arguments_def)
  have v: "map_of start_vm_arguments ''vmid'' = Some (PInt 101)" by (simp add: start_vm_arguments_def)
  from start_vm_end_to_end [OF c n v start_vm_remote_accepts, of no_services]
  show ?thesis
    unfolding started_text by (simp add: world0_def start_call_def)
qed

text \<open>
  C9, the claim as stated, fails: the answer is a text, not an envelope, it holds the task
  handle and the action besides the three fields claimed, and the handler has issued the
  start call only, without a single poll of the task status.
\<close>

theorem start_vm_no_polling_counterexample:
  "handle_call_tool no_services (connected start_vm_remote) ''start_vm'' start_vm_arguments world0
     = ([TextContent ''text''
          (''{'' @ quoted ''vmid'' @ '': 101, '' @ quoted ''node'' @ '': '' @ quoted ''pve1'' @ '', ''
           @ quoted ''task_id'' @ '': '' @ quoted ''UPID:123'' @ '', '' @ quoted ''action'' @ '': ''
           @ quoted ''start'' @ '', '' @ quoted ''status'' @ '': '' @ quoted ''started'' @ ''}'')],
        \<lparr>clock = 50000, trace = [Call start_call]\<rparr>)
   \<and> Call status_call
       \<notin> set (trace (snd (handle_call_tool no_services (connected start_vm_remote) ''start_vm''
                             start_vm_arguments world0)))"
  by code_simp

end
